theory Spec2Isabelle
  imports Main "HOL-Library.Log_Nat" "HOL-Library.Word"
begin

section \<open>JavaScript values the upload handler computes with\<close>

subsection \<open>Numbers\<close>

text \<open>
  A JavaScript number is an IEEE 754 binary64 value. The finite ones are rationals;
  the signs of zero and of infinity are not tracked (\<open>Fin 0\<close> stands for both zeros,
  \<open>Infinite\<close> for both infinities): division, multiplication, \<open>Math.floor\<close> and
  the comparisons with 16 and 9 that \<open>getVideoAspectRatio\<close> performs commute with
  forgetting these signs.
\<close>

datatype jsnum = Fin rat | Infinite | NaN

definition pow2 :: "int \<Rightarrow> rat" where
  "pow2 e = (if 0 \<le> e then 2 ^ nat e else 1 / 2 ^ nat (- e))"

text \<open>\<open>ilog2 a\<close> is the binary exponent of a positive rational: \<open>2^e \<le> a < 2^(e+1)\<close>.\<close>

definition ilog2 :: "rat \<Rightarrow> int" where
  "ilog2 a = (let (p, q) = quotient_of a;
                  l = bitlen p - bitlen q
              in if pow2 l \<le> a then l else l - 1)"

definition round_half_even :: "rat \<Rightarrow> int" where
  "round_half_even y =
     (let f = \<lfloor>y\<rfloor>; d = y - of_int f
      in if d < 1 / 2 then f
         else if 1 / 2 < d then f + 1
         else if even f then f else f + 1)"

text \<open>
  Rounding of an exact result to binary64, round-to-nearest, ties to even: 53
  significant bits for normal values, the fixed quantum \<open>2^-1074\<close> below \<open>2^-1022\<close>,
  overflow to infinity when the rounded magnitude reaches \<open>2^1024\<close> (binary exponent
  1024 or more).
\<close>

definition round_double :: "rat \<Rightarrow> jsnum" where
  "round_double x =
     (if x = 0 then Fin 0
      else let a = \<bar>x\<bar>;
               e = max (ilog2 a) (- 1022);
               q = pow2 (e - 52);
               r = of_int (round_half_even (a / q)) * q
           in if 1024 \<le> ilog2 r then Infinite else Fin (sgn x * r))"

fun num_div :: "jsnum \<Rightarrow> jsnum \<Rightarrow> jsnum" where
  "num_div NaN _ = NaN"
| "num_div _ NaN = NaN"
| "num_div Infinite Infinite = NaN"
| "num_div Infinite (Fin b) = Infinite"
| "num_div (Fin a) Infinite = Fin 0"
| "num_div (Fin a) (Fin b) =
     (if b = 0 then (if a = 0 then NaN else Infinite) else round_double (a / b))"

fun num_mul :: "jsnum \<Rightarrow> jsnum \<Rightarrow> jsnum" where
  "num_mul NaN _ = NaN"
| "num_mul _ NaN = NaN"
| "num_mul Infinite Infinite = Infinite"
| "num_mul Infinite (Fin b) = (if b = 0 then NaN else Infinite)"
| "num_mul (Fin a) Infinite = (if a = 0 then NaN else Infinite)"
| "num_mul (Fin a) (Fin b) = round_double (a * b)"

fun Math_floor :: "jsnum \<Rightarrow> jsnum" where
  "Math_floor (Fin a) = Fin (of_int \<lfloor>a\<rfloor>)"
| "Math_floor Infinite = Infinite"
| "Math_floor NaN = NaN"

subsection \<open>Values produced by \<open>JSON.parse\<close>\<close>

datatype jsval =
    JUndefined
  | JNull
  | JBool bool
  | JNum jsnum
  | JStr string
  | JArr "jsval list"
  | JObj "(string \<times> jsval) list"

datatype error =
    BadRequestError string
  | NotFoundError string
  | UserForbiddenError string
  | JsError string
  | TypeError
  | SyntaxError
  | SystemError string

text \<open>
  \<open>v.name\<close> for a name that no built-in prototype defines (\<open>streams\<close>, \<open>width\<close>,
  \<open>height\<close>): reading a property of \<open>undefined\<close> or \<open>null\<close> throws a TypeError, an
  object yields its member (the last one of that name) or \<open>undefined\<close>, every other
  value yields \<open>undefined\<close>.
\<close>

fun js_member :: "jsval \<Rightarrow> string \<Rightarrow> error + jsval" where
  "js_member JUndefined name = Inl TypeError"
| "js_member JNull name = Inl TypeError"
| "js_member (JObj kvs) name =
     Inr (case map_of (rev kvs) name of None \<Rightarrow> JUndefined | Some x \<Rightarrow> x)"
| "js_member _ name = Inr JUndefined"

text \<open>\<open>v[0]\<close>.\<close>

fun js_index0 :: "jsval \<Rightarrow> error + jsval" where
  "js_index0 JUndefined = Inl TypeError"
| "js_index0 JNull = Inl TypeError"
| "js_index0 (JArr xs) = Inr (case xs of [] \<Rightarrow> JUndefined | x # _ \<Rightarrow> x)"
| "js_index0 (JStr s) = Inr (case s of [] \<Rightarrow> JUndefined | c # _ \<Rightarrow> JStr [c])"
| "js_index0 (JObj kvs) =
     Inr (case map_of (rev kvs) ''0'' of None \<Rightarrow> JUndefined | Some x \<Rightarrow> x)"
| "js_index0 _ = Inr JUndefined"

section \<open>The world the handler runs in\<close>

type_synonym path = string
type_synonym content = string
type_synonym filesystem = "path \<Rightarrow> content option"

record proc_result =
  exitCode :: int
  stdoutText :: string
  stderrText :: string

record video =
  video_id :: string
  userID :: string
  videoURL :: "string option"
  thumbnailURL :: "string option"

text \<open>
  The collaborators of \<open>src/api/videos.ts\<close> that are not part of it: the Bun runtime
  (process spawning, \<open>JSON.parse\<close>, number coercion of strings and objects, the
  random source, the outcome of file and bucket writes and of unlinking), and the
  modules \<open>../auth\<close>, \<open>../db/videos\<close> and \<open>./assets\<close>. Each is a parameter.
  \<open>spawn\<close> maps an argument vector and the file system to the finished process
  (exit code, captured output) and the file system it leaves behind; the process
  always starts (a missing executable is not modelled).
  \<open>write_error\<close>, \<open>unlink_error\<close>, \<open>s3_error\<close> and \<open>update_error\<close> say when the
  operation rejects (\<open>None\<close>: it succeeds).
\<close>

record runtime =
  spawn :: "string list \<Rightarrow> filesystem \<Rightarrow> proc_result \<times> filesystem"
  JSON_parse :: "string \<Rightarrow> jsval option"
  ToNumber_object :: "jsval \<Rightarrow> jsnum option"
  entropy :: "nat \<Rightarrow> 8 word"
  write_error :: "path \<Rightarrow> filesystem \<Rightarrow> string option"
  unlink_error :: "path \<Rightarrow> filesystem \<Rightarrow> string option"
  s3_error :: "string \<Rightarrow> content \<Rightarrow> string option"
  update_error :: "video \<Rightarrow> string option"
  getBearerToken :: "(string \<times> string) list \<Rightarrow> error + string"
  validateJWT :: "string \<Rightarrow> string \<Rightarrow> error + string"
  mediaTypeToExt :: "string \<Rightarrow> string"

text \<open>
  \<open>ToNumber\<close>, as the operator \<open>/\<close> applies it to each operand: \<open>undefined\<close> is NaN,
  \<open>null\<close> is 0, booleans are 0 and 1; strings, arrays and objects go through the
  runtime's conversion (\<open>ToNumber_object\<close>), which throws a TypeError where it yields
  \<open>None\<close>.
\<close>

fun ToNumber :: "runtime \<Rightarrow> jsval \<Rightarrow> error + jsnum" where
  "ToNumber rt JUndefined = Inr NaN"
| "ToNumber rt JNull = Inr (Fin 0)"
| "ToNumber rt (JBool b) = Inr (Fin (if b then 1 else 0))"
| "ToNumber rt (JNum n) = Inr n"
| "ToNumber rt v =
     (case ToNumber_object rt v of None \<Rightarrow> Inl TypeError | Some n \<Rightarrow> Inr n)"

definition js_divide :: "runtime \<Rightarrow> jsval \<Rightarrow> jsval \<Rightarrow> error + jsnum" where
  "js_divide rt l r =
     (case ToNumber rt l of
        Inl e \<Rightarrow> Inl e
      | Inr a \<Rightarrow> (case ToNumber rt r of
                   Inl e \<Rightarrow> Inl e
                 | Inr b \<Rightarrow> Inr (num_div a b)))"

section \<open>\<open>getVideoAspectRatio\<close>\<close>

definition ffprobe_args :: "path \<Rightarrow> string list" where
  "ffprobe_args filePath =
     [''ffprobe'', ''-v'', ''error'', ''-select_streams'', ''v:0'',
      ''-show_entries'', ''stream=width,height'', ''-of'', ''json'', filePath]"

text \<open>\<open>result.streams[0].<name>\<close>\<close>

definition first_stream_field :: "jsval \<Rightarrow> string \<Rightarrow> error + jsval" where
  "first_stream_field result name =
     (case js_member result ''streams'' of
        Inl e \<Rightarrow> Inl e
      | Inr streams \<Rightarrow> (case js_index0 streams of
                         Inl e \<Rightarrow> Inl e
                       | Inr s \<Rightarrow> js_member s name))"

definition getVideoAspectRatio ::
  "runtime \<Rightarrow> path \<Rightarrow> filesystem \<Rightarrow> (error + string) \<times> filesystem" where
  "getVideoAspectRatio rt filePath fs =
     (let (proc, fs') = spawn rt (ffprobe_args filePath) fs
      in if exitCode proc \<noteq> 0
         then (Inl (JsError (''ffprobe error: '' @ stderrText proc)), fs')
         else (case JSON_parse rt (stdoutText proc) of
                 None \<Rightarrow> (Inl SyntaxError, fs')
               | Some result \<Rightarrow>
                   (case first_stream_field result ''width'' of
                      Inl e \<Rightarrow> (Inl e, fs')
                    | Inr width \<Rightarrow>
                        (case first_stream_field result ''height'' of
                           Inl e \<Rightarrow> (Inl e, fs')
                         | Inr height \<Rightarrow>
                             (case js_divide rt width height of
                                Inl e \<Rightarrow> (Inl e, fs')
                              | Inr ratio \<Rightarrow>
                                  (if Math_floor (num_mul ratio (Fin 9)) = Fin 16
                                   then (Inr ''landscape'', fs')
                                   else if Math_floor (num_mul ratio (Fin 16)) = Fin 9
                                   then (Inr ''portrait'', fs')
                                   else (Inr ''other'', fs')))))))"

section \<open>\<open>processVideoForFastStart\<close>\<close>

definition ffmpeg_args :: "path \<Rightarrow> path \<Rightarrow> string list" where
  "ffmpeg_args inputFilePath processedFilePath =
     [''ffmpeg'', ''-i'', inputFilePath, ''-movflags'', ''faststart'',
      ''-map_metadata'', ''0'', ''-codec'', ''copy'', ''-f'', ''mp4'', processedFilePath]"

definition processVideoForFastStart ::
  "runtime \<Rightarrow> path \<Rightarrow> filesystem \<Rightarrow> (error + path) \<times> filesystem" where
  "processVideoForFastStart rt inputFilePath fs =
     (let processedFilePath = inputFilePath @ ''.processed.mp4'';
          (proc, fs') = spawn rt (ffmpeg_args inputFilePath processedFilePath) fs
      in if exitCode proc \<noteq> 0
         then (Inl (JsError (''FFmpeg error: '' @ stderrText proc)), fs')
         else (Inr processedFilePath, fs'))"

section \<open>\<open>handlerUploadVideo\<close>\<close>

subsection \<open>Requests, configuration, state\<close>

record upload_file =
  file_size :: nat
  file_type :: string
  file_content :: content

datatype form_entry = FormFile upload_file | FormString string

record request =
  params_videoId :: "string option"
  headers :: "(string \<times> string) list"
  formData :: "error + (string \<times> form_entry) list"

record apiConfig =
  jwtSecret :: string
  s3Bucket :: string
  s3Region :: string

record response =
  status :: nat
  body :: "video option"

text \<open>
  The state the handler reads and writes: the local file system, the video table
  behind \<open>cfg.db\<close>, the objects of the configured bucket, and how much of the random
  source has been consumed.
\<close>

record world =
  files :: filesystem
  db :: "string \<Rightarrow> video option"
  s3 :: "string \<Rightarrow> content option"
  rng :: nat

subsection \<open>Runtime operations\<close>

definition hex_digit :: "nat \<Rightarrow> char" where
  "hex_digit n = ''0123456789abcdef'' ! n"

definition hex_of_byte :: "8 word \<Rightarrow> string" where
  "hex_of_byte b = [hex_digit (unat b div 16), hex_digit (unat b mod 16)]"

text \<open>\<open>buffer.toString('hex')\<close>\<close>

definition toString_hex :: "8 word list \<Rightarrow> string" where
  "toString_hex bs = concat (map hex_of_byte bs)"

definition randomBytes :: "runtime \<Rightarrow> nat \<Rightarrow> world \<Rightarrow> 8 word list \<times> world" where
  "randomBytes rt n w =
     (map (entropy rt) [rng w ..< rng w + n], w\<lparr>rng := rng w + n\<rparr>)"

text \<open>\<open>Bun.write(path, file)\<close>: a rejected write leaves the file system as it was.\<close>

definition Bun_write :: "runtime \<Rightarrow> path \<Rightarrow> content \<Rightarrow> world \<Rightarrow> (error + unit) \<times> world" where
  "Bun_write rt p c w =
     (case write_error rt p (files w) of
        Some e \<Rightarrow> (Inl (SystemError e), w)
      | None \<Rightarrow> (Inr (), w\<lparr>files := (files w)(p \<mapsto> c)\<rparr>))"

text \<open>\<open>Bun.file(path).delete()\<close>: unlinks the path, or rejects.\<close>

definition Bun_file_delete :: "runtime \<Rightarrow> path \<Rightarrow> world \<Rightarrow> (error + unit) \<times> world" where
  "Bun_file_delete rt p w =
     (case unlink_error rt p (files w) of
        Some e \<Rightarrow> (Inl (SystemError e), w)
      | None \<Rightarrow> (Inr (), w\<lparr>files := (files w)(p := None)\<rparr>))"

text \<open>
  \<open>s3Client.file(key).write(Bun.file(path))\<close>: the local file is read when the write
  runs, so a missing file rejects; otherwise the object is stored under the key unless
  the transfer rejects.
\<close>

definition s3_file_write :: "runtime \<Rightarrow> string \<Rightarrow> path \<Rightarrow> world \<Rightarrow> (error + unit) \<times> world" where
  "s3_file_write rt key p w =
     (case files w p of
        None \<Rightarrow> (Inl (SystemError ''ENOENT''), w)
      | Some c \<Rightarrow>
          (case s3_error rt key c of
             Some e \<Rightarrow> (Inl (SystemError e), w)
           | None \<Rightarrow> (Inr (), w\<lparr>s3 := (s3 w)(key \<mapsto> c)\<rparr>)))"

text \<open>
  Modelled from the spec: \<open>getVideo\<close> of \<open>../db/videos\<close> is not among the sources; the
  spec gives it as \<open>getRecord(id) -> VideoRecord | null\<close>.
\<close>

definition getVideo :: "world \<Rightarrow> string \<Rightarrow> video option" where
  "getVideo w videoId = db w videoId"

text \<open>
  Modelled from the spec: \<open>updateVideo\<close> of \<open>../db/videos\<close> is not among the sources;
  the spec gives it as \<open>updateRecord(record) -> void\<close>, a single last-writer-wins write
  of the row. A rejected update leaves the table as it was.
\<close>

definition updateVideo :: "runtime \<Rightarrow> video \<Rightarrow> world \<Rightarrow> (error + unit) \<times> world" where
  "updateVideo rt v w =
     (case update_error rt v of
        Some e \<Rightarrow> (Inl (SystemError e), w)
      | None \<Rightarrow> (Inr (), w\<lparr>db := (db w)(video_id v \<mapsto> v)\<rparr>))"

text \<open>
  Modelled from the spec: \<open>respondWithJSON\<close> of \<open>./json\<close> is not among the sources; the
  ingest yields the updated record, so the response is the status with that payload.
\<close>

definition respondWithJSON :: "nat \<Rightarrow> video option \<Rightarrow> response" where
  "respondWithJSON code payload = \<lparr>status = code, body = payload\<rparr>"

subsection \<open>The handler\<close>

text \<open>Step 1: \<open>1 << 30\<close>, a shift of 32-bit integers read as signed.\<close>

definition MAX_UPLOAD_SIZE :: int where
  "MAX_UPLOAD_SIZE = sint (push_bit 30 (1 :: 32 word))"

text \<open>
  Steps 2 to 5 (lines 71 to 95): the path parameter, authentication, the ownership
  check and the form field. They change nothing; they yield the record and the file.
\<close>

definition upload_preamble ::
  "runtime \<Rightarrow> apiConfig \<Rightarrow> request \<Rightarrow> world \<Rightarrow> error + (video \<times> upload_file)" where
  "upload_preamble rt cfg req w =
     (case params_videoId req of
        None \<Rightarrow> Inl (BadRequestError ''Invalid video ID'')
      | Some videoId \<Rightarrow>
          if videoId = [] then Inl (BadRequestError ''Invalid video ID'')
          else
            (case getBearerToken rt (headers req) of
               Inl e \<Rightarrow> Inl e
             | Inr token \<Rightarrow>
                 (case validateJWT rt token (jwtSecret cfg) of
                    Inl e \<Rightarrow> Inl e
                  | Inr uid \<Rightarrow>
                      (case getVideo w videoId of
                         None \<Rightarrow> Inl (NotFoundError ''Couldn't find video'')
                       | Some video \<Rightarrow>
                           if userID video \<noteq> uid
                           then Inl (UserForbiddenError ''Not authorized to update this video'')
                           else
                             (case formData req of
                                Inl e \<Rightarrow> Inl e
                              | Inr form \<Rightarrow>
                                  (case map_of form ''video'' of
                                     Some (FormFile file) \<Rightarrow> Inr (video, file)
                                   | _ \<Rightarrow> Inl (BadRequestError ''Video file missing'')))))))"

text \<open>The body of the \<open>try\<close> block, steps 9 to 12 (lines 116 to 137).\<close>

definition upload_try ::
  "runtime \<Rightarrow> apiConfig \<Rightarrow> video \<Rightarrow> string \<Rightarrow> path \<Rightarrow> world \<Rightarrow> (error + response) \<times> world" where
  "upload_try rt cfg video mediaType tempFilePath w =
     (case getVideoAspectRatio rt tempFilePath (files w) of
        (Inl e, fs1) \<Rightarrow> (Inl e, w\<lparr>files := fs1\<rparr>)
      | (Inr aspectRatio, fs1) \<Rightarrow>
          (case processVideoForFastStart rt tempFilePath fs1 of
             (Inl e, fs2) \<Rightarrow> (Inl e, w\<lparr>files := fs2\<rparr>)
           | (Inr processedFilePath, fs2) \<Rightarrow>
               (let (bytes, w3) = randomBytes rt 32 (w\<lparr>files := fs2\<rparr>);
                    fileKey = aspectRatio @ ''/'' @ toString_hex bytes
                                @ mediaTypeToExt rt mediaType
                in case s3_file_write rt fileKey processedFilePath w3 of
                     (Inl e, w4) \<Rightarrow> (Inl e, w4)
                   | (Inr _, w4) \<Rightarrow>
                       (let url = ''https://'' @ s3Bucket cfg @ ''.s3.'' @ s3Region cfg
                                    @ ''.amazonaws.com/'' @ fileKey;
                            video' = video\<lparr>videoURL := Some url\<rparr>
                        in case updateVideo rt video' w4 of
                             (Inl e, w5) \<Rightarrow> (Inl e, w5)
                           | (Inr _, w5) \<Rightarrow>
                               (Inr (respondWithJSON 200 (Some video')), w5)))))"

text \<open>
  The \<open>finally\<close> block (lines 138 to 142): two awaited deletes in sequence. A rejected
  delete throws from the block, so the second delete does not run after a rejected
  first one.
\<close>

definition upload_finally :: "runtime \<Rightarrow> path \<Rightarrow> world \<Rightarrow> (error + unit) \<times> world" where
  "upload_finally rt tempFilePath w =
     (case Bun_file_delete rt tempFilePath w of
        (Inl e, w1) \<Rightarrow> (Inl e, w1)
      | (Inr _, w1) \<Rightarrow> Bun_file_delete rt (tempFilePath @ ''.processed'') w1)"

text \<open>
  Step 8 and the \<open>try ... finally\<close> statement (lines 112 to 142). The temporary file is
  written before the \<open>try\<close>, so a rejected write is not followed by the cleanup. An
  exception thrown by the \<open>finally\<close> block replaces the completion of the \<open>try\<close> block,
  be it a return or a throw.
\<close>

definition upload_staged ::
  "runtime \<Rightarrow> apiConfig \<Rightarrow> video \<Rightarrow> upload_file \<Rightarrow> world \<Rightarrow> (error + response) \<times> world" where
  "upload_staged rt cfg video file w =
     (let (bytes, w1) = randomBytes rt 16 w;
          tempFilePath = ''/tmp/video-'' @ toString_hex bytes @ ''.mp4''
      in case Bun_write rt tempFilePath (file_content file) w1 of
           (Inl e, w2) \<Rightarrow> (Inl e, w2)
         | (Inr _, w2) \<Rightarrow>
             (let (r, w3) = upload_try rt cfg video (file_type file) tempFilePath w2
              in case upload_finally rt tempFilePath w3 of
                   (Inl e, w4) \<Rightarrow> (Inl e, w4)
                 | (Inr _, w4) \<Rightarrow> (r, w4)))"

definition handlerUploadVideo ::
  "runtime \<Rightarrow> apiConfig \<Rightarrow> request \<Rightarrow> world \<Rightarrow> (error + response) \<times> world" where
  "handlerUploadVideo rt cfg req w =
     (case upload_preamble rt cfg req w of
        Inl e \<Rightarrow> (Inl e, w)
      | Inr (video, file) \<Rightarrow>
          if int (file_size file) > MAX_UPLOAD_SIZE
          then (Inl (BadRequestError
                  ''Video file exceeds the maximum allowed size of 1GB''), w)
          else if file_type file \<noteq> ''video/mp4''
          then (Inl (BadRequestError
                  ''Invalid file type. Only MP4 videos are supported''), w)
          else upload_staged rt cfg video file w)"

section \<open>Storage keys and addresses\<close>

text \<open>
  The address template of the spec: \<open>https://<bucket>.s3.<region>.amazonaws.com/<key>\<close>.
\<close>

definition public_url :: "apiConfig \<Rightarrow> string \<Rightarrow> string" where
  "public_url cfg key = ''https://'' @ s3Bucket cfg @ ''.s3.'' @ s3Region cfg @ ''.amazonaws.com/'' @ key"


definition is_hex_char :: "char \<Rightarrow> bool" where
  "is_hex_char c \<longleftrightarrow> c \<in> set ''0123456789abcdef''"

text \<open>
  The key format of the spec, \<open>^(landscape|portrait|other)/[0-9a-f]{64}\.mp4$\<close>: one of
  the three categories, a slash, 64 lower-case hexadecimal digits, \<open>.mp4\<close>.
\<close>

definition storage_key_ok :: "string \<Rightarrow> bool" where
  "storage_key_ok key \<longleftrightarrow>
     list_ex (\<lambda>cat. let n = length cat
                    in take n key = cat \<and> length key = n + 69 \<and> key ! n = CHR ''/'' \<and>
                       list_all is_hex_char (take 64 (drop (n + 1) key)) \<and>
                       drop (n + 65) key = ''.mp4'')
       [''landscape'', ''portrait'', ''other'']"

section \<open>A concrete runtime and requests\<close>

text \<open>
  A runtime on which the definitions can be evaluated: \<open>ffprobe\<close> reports one
  1920x1080 stream for an existing file (its last argument), \<open>ffmpeg\<close> copies its
  input (argument 2) to its output (the last argument), both exit with 1 when the
  input is missing; writes and updates succeed, and unlinking a path that does not
  exist rejects with \<open>ENOENT\<close>, as \<open>unlink(2)\<close> does.
\<close>

definition probe_output :: "rat \<Rightarrow> rat \<Rightarrow> jsval" where
  "probe_output w h =
     JObj [(''streams'', JArr [JObj [(''width'', JNum (Fin w)), (''height'', JNum (Fin h))]])]"

definition example_stdout :: string where
  \<open>example_stdout = ''{"streams":[{"width":1920,"height":1080}]}''\<close>

definition posix_unlink_error :: "path \<Rightarrow> filesystem \<Rightarrow> string option" where
  "posix_unlink_error p fs = (if fs p = None then Some ''ENOENT'' else None)"

definition example_spawn :: "string list \<Rightarrow> filesystem \<Rightarrow> proc_result \<times> filesystem" where
  "example_spawn args fs =
     (if hd args = ''ffprobe''
      then (case fs (last args) of
              None \<Rightarrow>
                (\<lparr>exitCode = 1, stdoutText = [],
                  stderrText = ''No such file or directory''\<rparr>, fs)
            | Some c \<Rightarrow>
                (\<lparr>exitCode = 0, stdoutText = example_stdout, stderrText = []\<rparr>, fs))
      else (case fs (args ! 2) of
              None \<Rightarrow>
                (\<lparr>exitCode = 1, stdoutText = [],
                  stderrText = ''No such file or directory''\<rparr>, fs)
            | Some c \<Rightarrow>
                (\<lparr>exitCode = 0, stdoutText = [], stderrText = []\<rparr>, fs(last args \<mapsto> c))))"

definition example_runtime :: runtime where
  "example_runtime =
     \<lparr>spawn = example_spawn,
      JSON_parse = (\<lambda>s. if s = example_stdout then Some (probe_output 1920 1080) else None),
      ToNumber_object = (\<lambda>v. Some NaN),
      entropy = (\<lambda>i. of_nat (7 * i + 3)),
      write_error = (\<lambda>p fs. None),
      unlink_error = posix_unlink_error,
      s3_error = (\<lambda>k c. None),
      update_error = (\<lambda>v. None),
      getBearerToken = (\<lambda>hs. case map_of hs ''Authorization'' of
                           None \<Rightarrow> Inl (BadRequestError ''Malformed authorization header'')
                         | Some t \<Rightarrow> Inr (drop 7 t)),
      validateJWT = (\<lambda>t secret. if t = ''alice-token'' then Inr ''alice''
                           else Inl (UserForbiddenError ''Invalid token'')),
      mediaTypeToExt = (\<lambda>m. if m = ''video/mp4'' then ''.mp4'' else ''.bin'')\<rparr>"

definition example_config :: apiConfig where
  "example_config =
     \<lparr>jwtSecret = ''secret'', s3Bucket = ''tubely'', s3Region = ''us-east-2''\<rparr>"

definition example_video :: video where
  "example_video =
     \<lparr>video_id = ''v1'', userID = ''alice'', videoURL = None, thumbnailURL = None\<rparr>"

definition example_file :: "nat \<Rightarrow> string \<Rightarrow> upload_file" where
  "example_file n t = \<lparr>file_size = n, file_type = t, file_content = ''mp4-bytes''\<rparr>"

definition example_request :: "upload_file \<Rightarrow> request" where
  "example_request f =
     \<lparr>params_videoId = Some ''v1'',
      headers = [(''Authorization'', ''Bearer alice-token'')],
      formData = Inr [(''video'', FormFile f)]\<rparr>"

definition example_world :: world where
  "example_world =
     \<lparr>files = Map.empty, db = [''v1'' \<mapsto> example_video], s3 = Map.empty, rng = 0\<rparr>"

definition example_temp :: path where
  "example_temp = ''/tmp/video-030a11181f262d343b424950575e656c.mp4''"

definition example_key :: string where
  "example_key = ''landscape/737a81888f969da4abb2b9c0c7ced5dce3eaf1f8ff060d141b222930373e454c.mp4''"

definition example_url :: string where
  "example_url = ''https://tubely.s3.us-east-2.amazonaws.com/'' @ example_key"

text \<open>The temporary file as the handler writes it, before the \<open>try\<close> block.\<close>

definition example_staged_world :: world where
  "example_staged_world =
     example_world\<lparr>files := [example_temp \<mapsto> ''mp4-bytes''], rng := 16\<rparr>"

text \<open>Runtimes in which the upload or the record update rejects.\<close>

definition upload_failing_runtime :: runtime where
  "upload_failing_runtime = example_runtime\<lparr>s3_error := \<lambda>k c. Some ''AccessDenied''\<rparr>"

definition update_failing_runtime :: runtime where
  "update_failing_runtime = example_runtime\<lparr>update_error := \<lambda>v. Some ''SQLITE_BUSY''\<rparr>"

text \<open>The same, with an unlink that never rejects.\<close>

definition lenient :: "runtime \<Rightarrow> runtime" where
  "lenient rt = rt\<lparr>unlink_error := \<lambda>p fs. None\<rparr>"

text \<open>A runtime in which every unlink is refused.\<close>

definition denying_runtime :: runtime where
  "denying_runtime = example_runtime\<lparr>unlink_error := \<lambda>p fs. Some ''EACCES''\<rparr>"

text \<open>A 5 MB MP4 upload by the owner of the record.\<close>

definition example_upload :: request where
  "example_upload = example_request (example_file 5242880 ''video/mp4'')"

section \<open>Geometry classification\<close>

lemma ratio_1920_1080:
  "Math_floor (num_mul (num_div (Fin 1920) (Fin 1080)) (Fin 9)) = Fin 16"
  by code_simp

lemma ratio_1080_1920:
  "Math_floor (num_mul (num_div (Fin 1080) (Fin 1920)) (Fin 9)) \<noteq> Fin 16 \<and>
   Math_floor (num_mul (num_div (Fin 1080) (Fin 1920)) (Fin 16)) = Fin 9"
  by code_simp

lemma ratio_1000_1000:
  "Math_floor (num_mul (num_div (Fin 1000) (Fin 1000)) (Fin 9)) \<noteq> Fin 16 \<and>
   Math_floor (num_mul (num_div (Fin 1000) (Fin 1000)) (Fin 16)) \<noteq> Fin 9"
  by code_simp

lemma getVideoAspectRatio_numbers:
  assumes "spawn rt (ffprobe_args filePath) fs = (proc, fs')"
    and "exitCode proc = 0"
    and "JSON_parse rt (stdoutText proc) = Some result"
    and "first_stream_field result ''width'' = Inr (JNum w)"
    and "first_stream_field result ''height'' = Inr (JNum h)"
  shows "getVideoAspectRatio rt filePath fs =
           (Inr (if Math_floor (num_mul (num_div w h) (Fin 9)) = Fin 16 then ''landscape''
                 else if Math_floor (num_mul (num_div w h) (Fin 16)) = Fin 9 then ''portrait''
                 else ''other''), fs')"
  using assms by (simp add: getVideoAspectRatio_def js_divide_def)

lemma first_stream_field_probe_output:
  "first_stream_field (probe_output w h) ''width'' = Inr (JNum (Fin w))"
  "first_stream_field (probe_output w h) ''height'' = Inr (JNum (Fin h))"
  by (simp_all add: first_stream_field_def probe_output_def)

text \<open>
  C1. For every probed width and height (numbers), the classification evaluates the
  floor-based rules in order on the binary64 ratio: \<open>floor(ratio * 9) = 16\<close> gives
  landscape, else \<open>floor(ratio * 16) = 9\<close> gives portrait, else other. In
  particular 1920x1080 is landscape (the product \<open>fl(16/9) * 9\<close> lies exactly halfway
  between two doubles and rounds to the even one, 16), 1080x1920 is portrait and
  1000x1000 is other.
\<close>

theorem getVideoAspectRatio_floor_rules:
  assumes "spawn rt (ffprobe_args filePath) fs = (proc, fs')"
    and "exitCode proc = 0"
    and "JSON_parse rt (stdoutText proc) = Some result"
    and "first_stream_field result ''width'' = Inr (JNum w)"
    and "first_stream_field result ''height'' = Inr (JNum h)"
  shows "fst (getVideoAspectRatio rt filePath fs) =
           Inr (if Math_floor (num_mul (num_div w h) (Fin 9)) = Fin 16 then ''landscape''
                else if Math_floor (num_mul (num_div w h) (Fin 16)) = Fin 9 then ''portrait''
                else ''other'')
         \<and> (w = Fin 1920 \<and> h = Fin 1080 \<longrightarrow>
              fst (getVideoAspectRatio rt filePath fs) = Inr ''landscape'')
         \<and> (w = Fin 1080 \<and> h = Fin 1920 \<longrightarrow>
              fst (getVideoAspectRatio rt filePath fs) = Inr ''portrait'')
         \<and> (w = Fin 1000 \<and> h = Fin 1000 \<longrightarrow>
              fst (getVideoAspectRatio rt filePath fs) = Inr ''other'')"
proof -
  note eq = getVideoAspectRatio_numbers [OF assms]
  have "w = Fin 1920 \<and> h = Fin 1080 \<longrightarrow>
          fst (getVideoAspectRatio rt filePath fs) = Inr ''landscape''"
    using ratio_1920_1080 by (simp add: eq)
  moreover have "w = Fin 1080 \<and> h = Fin 1920 \<longrightarrow>
          fst (getVideoAspectRatio rt filePath fs) = Inr ''portrait''"
    using ratio_1080_1920 by (simp add: eq)
  moreover have "w = Fin 1000 \<and> h = Fin 1000 \<longrightarrow>
          fst (getVideoAspectRatio rt filePath fs) = Inr ''other''"
    using ratio_1000_1000 by (simp add: eq)
  ultimately show ?thesis by (simp add: eq)
qed

theorem getVideoAspectRatio_floor_rules_witness:
  "fst (getVideoAspectRatio example_runtime ''/tmp/video-00.mp4'' [''/tmp/video-00.mp4'' \<mapsto> ''mp4-bytes'']) = Inr ''landscape'' \<and>
   fst (getVideoAspectRatio (example_runtime\<lparr>JSON_parse := \<lambda>s. Some (probe_output 1080 1920)\<rparr>)
          ''/tmp/video-00.mp4'' [''/tmp/video-00.mp4'' \<mapsto> ''mp4-bytes'']) = Inr ''portrait'' \<and>
   fst (getVideoAspectRatio (example_runtime\<lparr>JSON_parse := \<lambda>s. Some (probe_output 1000 1000)\<rparr>)
          ''/tmp/video-00.mp4'' [''/tmp/video-00.mp4'' \<mapsto> ''mp4-bytes'']) = Inr ''other''"
proof -
  let ?p = "''/tmp/video-00.mp4''"
  let ?fs = "[''/tmp/video-00.mp4'' \<mapsto> ''mp4-bytes'']"
  let ?proc = "\<lparr>exitCode = 0, stdoutText = example_stdout, stderrText = []\<rparr>"
  let ?rt2 = "example_runtime\<lparr>JSON_parse := \<lambda>s. Some (probe_output 1080 1920)\<rparr>"
  let ?rt3 = "example_runtime\<lparr>JSON_parse := \<lambda>s. Some (probe_output 1000 1000)\<rparr>"
  have ex: "exitCode ?proc = 0"
    by simp
  have sp1: "spawn example_runtime (ffprobe_args ?p) ?fs = (?proc, ?fs)"
    and sp2: "spawn ?rt2 (ffprobe_args ?p) ?fs = (?proc, ?fs)"
    and sp3: "spawn ?rt3 (ffprobe_args ?p) ?fs = (?proc, ?fs)"
    by (simp_all add: example_runtime_def example_spawn_def ffprobe_args_def)
  have js1: "JSON_parse example_runtime (stdoutText ?proc) = Some (probe_output 1920 1080)"
    and js2: "JSON_parse ?rt2 (stdoutText ?proc) = Some (probe_output 1080 1920)"
    and js3: "JSON_parse ?rt3 (stdoutText ?proc) = Some (probe_output 1000 1000)"
    by (simp_all add: example_runtime_def)
  note r1 = getVideoAspectRatio_floor_rules
      [OF sp1 ex js1 first_stream_field_probe_output, THEN conjunct2, THEN conjunct1]
  note r2 = getVideoAspectRatio_floor_rules
      [OF sp2 ex js2 first_stream_field_probe_output, THEN conjunct2, THEN conjunct2, THEN conjunct1]
  note r3 = getVideoAspectRatio_floor_rules
      [OF sp3 ex js3 first_stream_field_probe_output, THEN conjunct2, THEN conjunct2, THEN conjunct2]
  from r1 r2 r3 show ?thesis
    by simp
qed

section \<open>External tool failures\<close>

lemma first_stream_field_not_JsError: "first_stream_field result name \<noteq> Inl (JsError m)"
  by (cases result; cases "js_member result ''streams''")
     (auto simp: first_stream_field_def split: sum.splits jsval.splits list.splits option.splits
        elim!: js_member.elims js_index0.elims)

lemma ToNumber_not_JsError: "ToNumber rt v \<noteq> Inl (JsError m)"
  by (cases v) (auto split: option.splits)

lemma js_divide_not_JsError: "js_divide rt l r \<noteq> Inl (JsError m)"
  using ToNumber_not_JsError by (auto simp: js_divide_def split: sum.splits)

lemma getVideoAspectRatio_exit_zero:
  assumes "exitCode (fst (spawn rt (ffprobe_args filePath) fs)) = 0"
  shows "fst (getVideoAspectRatio rt filePath fs) \<noteq> Inl (JsError m)"
  using assms first_stream_field_not_JsError js_divide_not_JsError
  by (auto simp: getVideoAspectRatio_def split: prod.splits option.splits sum.splits)

lemma getVideoAspectRatio_exit_nonzero:
  assumes "exitCode (fst (spawn rt (ffprobe_args filePath) fs)) \<noteq> 0"
  shows "fst (getVideoAspectRatio rt filePath fs) =
           Inl (JsError (''ffprobe error: ''
                  @ stderrText (fst (spawn rt (ffprobe_args filePath) fs))))"
  using assms by (auto simp: getVideoAspectRatio_def split: prod.splits)

text \<open>
  C9. Each tool invocation fails exactly when the exit code is not zero, and the error
  then carries the captured stderr text: the probe throws the \<open>Error\<close> with message
  \<open>ffprobe error: <stderr>\<close> if and only if \<open>ffprobe\<close> exits with a non-zero code, and
  with exit code 0 it throws no \<open>Error\<close> of that kind at all (what it may still throw
  while reading the output is a SyntaxError or a TypeError, not a tool failure); the
  rewrite fails if and only if \<open>ffmpeg\<close> exits with a non-zero code, and then with
  \<open>FFmpeg error: <stderr>\<close>.
\<close>

theorem tool_failure_iff_nonzero_exit:
  "(exitCode (fst (spawn rt (ffprobe_args filePath) fs)) \<noteq> 0
      \<longleftrightarrow> (\<exists>m. fst (getVideoAspectRatio rt filePath fs) = Inl (JsError m)))
   \<and> (exitCode (fst (spawn rt (ffprobe_args filePath) fs)) \<noteq> 0
      \<longleftrightarrow> fst (getVideoAspectRatio rt filePath fs) =
            Inl (JsError (''ffprobe error: ''
                   @ stderrText (fst (spawn rt (ffprobe_args filePath) fs)))))
   \<and> (exitCode (fst (spawn rt (ffmpeg_args inputFilePath (inputFilePath @ ''.processed.mp4'')) fs)) \<noteq> 0
      \<longleftrightarrow> (\<exists>e. fst (processVideoForFastStart rt inputFilePath fs) = Inl e))
   \<and> (exitCode (fst (spawn rt (ffmpeg_args inputFilePath (inputFilePath @ ''.processed.mp4'')) fs)) \<noteq> 0
      \<longleftrightarrow> fst (processVideoForFastStart rt inputFilePath fs) =
            Inl (JsError (''FFmpeg error: ''
                   @ stderrText (fst (spawn rt
                       (ffmpeg_args inputFilePath (inputFilePath @ ''.processed.mp4'')) fs)))))"
proof -
  let ?probe = "fst (spawn rt (ffprobe_args filePath) fs)"
  let ?remux = "fst (spawn rt (ffmpeg_args inputFilePath (inputFilePath @ ''.processed.mp4'')) fs)"
  have a: "exitCode ?probe \<noteq> 0
      \<longleftrightarrow> (\<exists>m. fst (getVideoAspectRatio rt filePath fs) = Inl (JsError m))"
    using getVideoAspectRatio_exit_zero [of rt filePath fs]
      getVideoAspectRatio_exit_nonzero [of rt filePath fs] by auto
  have b: "exitCode ?probe \<noteq> 0
      \<longleftrightarrow> fst (getVideoAspectRatio rt filePath fs) =
            Inl (JsError (''ffprobe error: '' @ stderrText ?probe))"
    using getVideoAspectRatio_exit_zero [of rt filePath fs]
      getVideoAspectRatio_exit_nonzero [of rt filePath fs] by auto
  have c: "exitCode ?remux \<noteq> 0
      \<longleftrightarrow> (\<exists>e. fst (processVideoForFastStart rt inputFilePath fs) = Inl e)"
    by (auto simp: processVideoForFastStart_def Let_def split: prod.splits)
  have d: "exitCode ?remux \<noteq> 0
      \<longleftrightarrow> fst (processVideoForFastStart rt inputFilePath fs) =
            Inl (JsError (''FFmpeg error: '' @ stderrText ?remux))"
    by (auto simp: processVideoForFastStart_def Let_def split: prod.splits)
  from a b c d show ?thesis by blast
qed

theorem tool_failure_iff_nonzero_exit_witness:
  "fst (getVideoAspectRatio example_runtime ''/tmp/gone.mp4'' Map.empty)
     = Inl (JsError ''ffprobe error: No such file or directory'')
   \<and> fst (processVideoForFastStart example_runtime ''/tmp/gone.mp4'' Map.empty)
     = Inl (JsError ''FFmpeg error: No such file or directory'')"
proof -
  have p: "spawn example_runtime (ffprobe_args ''/tmp/gone.mp4'') Map.empty
      = (\<lparr>exitCode = 1, stdoutText = [], stderrText = ''No such file or directory''\<rparr>, Map.empty)"
    by (simp add: example_runtime_def example_spawn_def ffprobe_args_def)
  have r: "spawn example_runtime
        (ffmpeg_args ''/tmp/gone.mp4'' (''/tmp/gone.mp4'' @ ''.processed.mp4'')) Map.empty
      = (\<lparr>exitCode = 1, stdoutText = [], stderrText = ''No such file or directory''\<rparr>, Map.empty)"
    by (simp add: example_runtime_def example_spawn_def ffmpeg_args_def)
  note t = tool_failure_iff_nonzero_exit
      [of example_runtime "''/tmp/gone.mp4''" Map.empty "''/tmp/gone.mp4''"]
  from t [THEN conjunct2, THEN conjunct1] t [THEN conjunct2, THEN conjunct2, THEN conjunct2]
  show ?thesis
    unfolding p r by simp
qed

section \<open>Fast-start rewrite\<close>



section \<open>Probe output without usable dimensions\<close>

lemma num_div_NaN: "num_div NaN b = NaN" "num_div a NaN = NaN"
  by (cases a; simp)+

lemma getVideoAspectRatio_NaN_ratio:
  assumes "spawn rt (ffprobe_args filePath) fs = (proc, fs')"
    and "exitCode proc = 0"
    and "JSON_parse rt (stdoutText proc) = Some result"
    and "first_stream_field result ''width'' = Inr wv"
    and "first_stream_field result ''height'' = Inr hv"
    and "ToNumber rt wv = Inr a"
    and "ToNumber rt hv = Inr b"
    and "a = NaN \<or> b = NaN"
  shows "getVideoAspectRatio rt filePath fs = (Inr ''other'', fs')"
  using assms by (auto simp: getVideoAspectRatio_def js_divide_def num_div_NaN)

lemma first_stream_field_no_stream:
  assumes "js_member result ''streams'' = Inr JUndefined \<or> js_member result ''streams'' = Inr (JArr [])"
  shows "first_stream_field result name = Inl TypeError"
  using assms by (auto simp: first_stream_field_def)

text \<open>
  C5, as the code has it. The function validates nothing. With exit code 0 and output
  that parses: when no first stream can be read (\<open>streams\<close> is missing or is the empty
  array) the property access throws a TypeError; when the first stream can be read but
  its width or height converts to NaN (an absent field is \<open>undefined\<close>, which converts
  to NaN) and the other operand converts without throwing, the ratio is NaN, neither
  floor test holds, and the function returns the category \<open>other\<close>.
\<close>

theorem probe_output_without_dimensions:
  assumes "spawn rt (ffprobe_args filePath) fs = (proc, fs')"
    and "exitCode proc = 0"
    and "JSON_parse rt (stdoutText proc) = Some result"
  shows "(js_member result ''streams'' = Inr JUndefined \<or>
          js_member result ''streams'' = Inr (JArr []) \<longrightarrow>
            fst (getVideoAspectRatio rt filePath fs) = Inl TypeError)
       \<and> (\<forall>wv hv a b.
            first_stream_field result ''width'' = Inr wv \<and>
            first_stream_field result ''height'' = Inr hv \<and>
            ToNumber rt wv = Inr a \<and> ToNumber rt hv = Inr b \<and> (a = NaN \<or> b = NaN) \<longrightarrow>
              fst (getVideoAspectRatio rt filePath fs) = Inr ''other'')
       \<and> ToNumber rt JUndefined = Inr NaN"
proof -
  have one: "js_member result ''streams'' = Inr JUndefined \<or>
          js_member result ''streams'' = Inr (JArr []) \<longrightarrow>
            fst (getVideoAspectRatio rt filePath fs) = Inl TypeError"
    using assms first_stream_field_no_stream [of result "''width''"]
    by (auto simp: getVideoAspectRatio_def)
  have two: "\<forall>wv hv a b.
            first_stream_field result ''width'' = Inr wv \<and>
            first_stream_field result ''height'' = Inr hv \<and>
            ToNumber rt wv = Inr a \<and> ToNumber rt hv = Inr b \<and> (a = NaN \<or> b = NaN) \<longrightarrow>
              fst (getVideoAspectRatio rt filePath fs) = Inr ''other''"
    using getVideoAspectRatio_NaN_ratio [OF assms] by (metis fst_conv)
  from one two show ?thesis by simp
qed

theorem probe_output_without_dimensions_witness:
  "fst (getVideoAspectRatio
        (example_runtime\<lparr>JSON_parse := \<lambda>s. Some (JObj [(''streams'', JArr [])])\<rparr>)
        ''/tmp/video-00.mp4'' [''/tmp/video-00.mp4'' \<mapsto> ''mp4-bytes'']) = Inl TypeError
   \<and> fst (getVideoAspectRatio
        (example_runtime\<lparr>JSON_parse := \<lambda>s. Some (JObj [(''streams'',
            JArr [JObj [(''width'', JNum (Fin 1920))]])])\<rparr>)
        ''/tmp/video-00.mp4'' [''/tmp/video-00.mp4'' \<mapsto> ''mp4-bytes'']) = Inr ''other''"
proof -
  let ?p = "''/tmp/video-00.mp4''"
  let ?fs = "[''/tmp/video-00.mp4'' \<mapsto> ''mp4-bytes'']"
  let ?proc = "\<lparr>exitCode = 0, stdoutText = example_stdout, stderrText = []\<rparr>"
  let ?j1 = "JObj [(''streams'', JArr [])]"
  let ?j2 = "JObj [(''streams'', JArr [JObj [(''width'', JNum (Fin 1920))]])]"
  let ?rt1 = "example_runtime\<lparr>JSON_parse := \<lambda>s. Some ?j1\<rparr>"
  let ?rt2 = "example_runtime\<lparr>JSON_parse := \<lambda>s. Some ?j2\<rparr>"
  have ex: "exitCode ?proc = 0"
    by simp
  have sp1: "spawn ?rt1 (ffprobe_args ?p) ?fs = (?proc, ?fs)"
    and sp2: "spawn ?rt2 (ffprobe_args ?p) ?fs = (?proc, ?fs)"
    by (simp_all add: example_runtime_def example_spawn_def ffprobe_args_def)
  have js1: "JSON_parse ?rt1 (stdoutText ?proc) = Some ?j1"
    and js2: "JSON_parse ?rt2 (stdoutText ?proc) = Some ?j2"
    by (simp_all add: example_runtime_def)
  have empty: "js_member ?j1 ''streams'' = Inr (JArr [])"
    by simp
  have fields: "first_stream_field ?j2 ''width'' = Inr (JNum (Fin 1920))"
    "first_stream_field ?j2 ''height'' = Inr JUndefined"
    by (simp_all add: first_stream_field_def)
  have nums: "ToNumber ?rt2 (JNum (Fin 1920)) = Inr (Fin 1920)" "ToNumber ?rt2 JUndefined = Inr NaN"
    by simp_all
  from probe_output_without_dimensions [OF sp1 ex js1, THEN conjunct1] empty
  have a: "fst (getVideoAspectRatio ?rt1 ?p ?fs) = Inl TypeError"
    by blast
  from probe_output_without_dimensions [OF sp2 ex js2, THEN conjunct2, THEN conjunct1] fields nums
  have b: "fst (getVideoAspectRatio ?rt2 ?p ?fs) = Inr ''other''"
    by blast
  from a b show ?thesis by simp
qed

text \<open>
  The claim as stated fails: for the probe output \<open>{"streams":[{}]}\<close>, in which width
  and height are absent, the classification returns \<open>other\<close> and does not fail.
\<close>

theorem absent_dimensions_counterexample:
  "first_stream_field (JObj [(''streams'', JArr [JObj []])]) ''width'' = Inr JUndefined
   \<and> first_stream_field (JObj [(''streams'', JArr [JObj []])]) ''height'' = Inr JUndefined
   \<and> fst (getVideoAspectRatio
        (example_runtime\<lparr>JSON_parse := \<lambda>s. Some (JObj [(''streams'', JArr [JObj []])])\<rparr>)
        ''/tmp/video-00.mp4'' [''/tmp/video-00.mp4'' \<mapsto> ''mp4-bytes'']) = Inr ''other''"
  by (simp add: first_stream_field_def getVideoAspectRatio_def js_divide_def
      example_runtime_def example_spawn_def ffprobe_args_def)

section \<open>Stages of the upload handler\<close>

lemma getVideoAspectRatio_category:
  "getVideoAspectRatio rt p fs = (Inr a, fs') \<Longrightarrow> a \<in> {''landscape'', ''portrait'', ''other''}"
  by (auto simp: getVideoAspectRatio_def split: prod.splits if_splits option.splits sum.splits)

lemma randomBytes_world:
  "db (snd (randomBytes rt n w)) = db w" "s3 (snd (randomBytes rt n w)) = s3 w"
  "files (snd (randomBytes rt n w)) = files w"
  by (simp_all add: randomBytes_def)

lemma Bun_write_world:
  "db (snd (Bun_write rt p c w)) = db w" "s3 (snd (Bun_write rt p c w)) = s3 w"
  by (simp_all add: Bun_write_def split: option.splits)

lemma Bun_file_delete_world:
  "db (snd (Bun_file_delete rt p w)) = db w" "s3 (snd (Bun_file_delete rt p w)) = s3 w"
  by (simp_all add: Bun_file_delete_def split: option.splits)

lemma upload_finally_world:
  "db (snd (upload_finally rt t w)) = db w" "s3 (snd (upload_finally rt t w)) = s3 w"
  by (auto simp: upload_finally_def Bun_file_delete_def split: prod.splits sum.splits option.splits)

lemma upload_finally_other:
  "q \<noteq> t \<Longrightarrow> q \<noteq> t @ ''.processed'' \<Longrightarrow> files (snd (upload_finally rt t w)) q = files w q"
  by (auto simp: upload_finally_def Bun_file_delete_def split: prod.splits sum.splits option.splits)

lemma upload_finally_error:
  "fst (upload_finally rt t w) = Inl e \<Longrightarrow> \<exists>p fs x. unlink_error rt p fs = Some x \<and> e = SystemError x"
  by (auto simp: upload_finally_def Bun_file_delete_def split: prod.splits sum.splits option.splits)

lemma upload_try_failure:
  "upload_try rt cfg video mt t w = (Inl e, w') \<Longrightarrow> db w' = db w"
  by (auto simp: upload_try_def Let_def randomBytes_def s3_file_write_def updateVideo_def
      split: prod.splits sum.splits option.splits)

lemma upload_try_success:
  assumes "upload_try rt cfg video mt t w = (Inr resp, w')"
  shows "\<exists>aspect bytes c.
           aspect \<in> {''landscape'', ''portrait'', ''other''} \<and> length bytes = 32 \<and>
           s3 w' = (s3 w)(aspect @ ''/'' @ toString_hex bytes @ mediaTypeToExt rt mt \<mapsto> c) \<and>
           db w' = (db w)(video_id video \<mapsto>
              video\<lparr>videoURL := Some (public_url cfg
                 (aspect @ ''/'' @ toString_hex bytes @ mediaTypeToExt rt mt))\<rparr>) \<and>
           resp = respondWithJSON 200 (Some (video\<lparr>videoURL := Some (public_url cfg
                 (aspect @ ''/'' @ toString_hex bytes @ mediaTypeToExt rt mt))\<rparr>))"
proof -
  obtain ra fs1 where gv: "getVideoAspectRatio rt t (files w) = (ra, fs1)"
    by (cases "getVideoAspectRatio rt t (files w)")
  then obtain aspect where ra: "ra = Inr aspect"
    using assms by (cases ra) (auto simp: upload_try_def)
  obtain rp fs2 where pv: "processVideoForFastStart rt t fs1 = (rp, fs2)"
    by (cases "processVideoForFastStart rt t fs1")
  then obtain out where rp: "rp = Inr out"
    using assms gv ra by (cases rp) (auto simp: upload_try_def)
  let ?bytes = "map (entropy rt) [rng w ..< rng w + 32]"
  let ?key = "aspect @ ''/'' @ toString_hex ?bytes @ mediaTypeToExt rt mt"
  have cat: "aspect \<in> {''landscape'', ''portrait'', ''other''}"
    using gv ra getVideoAspectRatio_category by blast
  have "\<exists>c. s3 w' = (s3 w)(?key \<mapsto> c) \<and>
        db w' = (db w)(video_id video \<mapsto> video\<lparr>videoURL := Some (public_url cfg ?key)\<rparr>) \<and>
        resp = respondWithJSON 200 (Some (video\<lparr>videoURL := Some (public_url cfg ?key)\<rparr>))"
    using assms gv ra pv rp
    by (auto simp: upload_try_def Let_def randomBytes_def s3_file_write_def updateVideo_def
        public_url_def split: option.splits)
  then obtain c where run: "s3 w' = (s3 w)(?key \<mapsto> c)"
      "db w' = (db w)(video_id video \<mapsto> video\<lparr>videoURL := Some (public_url cfg ?key)\<rparr>)"
      "resp = respondWithJSON 200 (Some (video\<lparr>videoURL := Some (public_url cfg ?key)\<rparr>))"
    by blast
  have len: "length ?bytes = 32"
    by simp
  from cat len run show ?thesis
    by blast
qed

lemma hex_digits_ok: "list_all (\<lambda>n. is_hex_char (hex_digit n)) [0..<16]"
  by (simp add: hex_digit_def is_hex_char_def upt_rec [of _ "numeral _"] upt_rec [of _ "Suc _"])

lemma hex_digit_ok: "n < 16 \<Longrightarrow> is_hex_char (hex_digit n)"
  using hex_digits_ok by (simp add: list_all_iff)

lemma hex_of_byte_ok: "list_all is_hex_char (hex_of_byte b)"
proof -
  have "unat b < 2 ^ LENGTH(8)"
    by (rule unsigned_less)
  then have "unat b div 16 < 16"
    by simp
  then show ?thesis
    by (simp add: hex_of_byte_def hex_digit_ok)
qed

lemma toString_hex_length: "length (toString_hex bs) = 2 * length bs"
  by (induction bs) (simp_all add: toString_hex_def hex_of_byte_def)

lemma toString_hex_ok: "list_all is_hex_char (toString_hex bs)"
  using hex_of_byte_ok by (induction bs) (simp_all add: toString_hex_def)

lemma storage_key_shape:
  assumes "length h = 64" and "list_all is_hex_char h"
  shows "let n = length cat
         in take n (cat @ ''/'' @ h @ ''.mp4'') = cat \<and>
            length (cat @ ''/'' @ h @ ''.mp4'') = n + 69 \<and>
            (cat @ ''/'' @ h @ ''.mp4'') ! n = CHR ''/'' \<and>
            list_all is_hex_char (take 64 (drop (n + 1) (cat @ ''/'' @ h @ ''.mp4''))) \<and>
            drop (n + 65) (cat @ ''/'' @ h @ ''.mp4'') = ''.mp4''"
  using assms by (simp add: Let_def nth_append)

lemma storage_key_okI:
  assumes "cat \<in> {''landscape'', ''portrait'', ''other''}"
    and "length h = 64" and "list_all is_hex_char h"
  shows "storage_key_ok (cat @ ''/'' @ h @ ''.mp4'')"
proof -
  note shape = storage_key_shape [OF assms(2,3)]
  from assms(1) consider "cat = ''landscape''" | "cat = ''portrait''" | "cat = ''other''"
    by blast
  then show ?thesis
  proof cases
    case 1
    with shape [of "''landscape''"] show ?thesis
      unfolding storage_key_ok_def list_ex_Cons_iff list_ex_Nil_iff by blast
  next
    case 2
    with shape [of "''portrait''"] show ?thesis
      unfolding storage_key_ok_def list_ex_Cons_iff list_ex_Nil_iff by blast
  next
    case 3
    with shape [of "''other''"] show ?thesis
      unfolding storage_key_ok_def list_ex_Cons_iff list_ex_Nil_iff by blast
  qed
qed

lemma upload_staged_cases:
  assumes "upload_staged rt cfg video file w = (r, w')"
  shows "(db w' = db w \<and> (\<exists>e. r = Inl e))
       \<or> (\<exists>aspect bytes c.
            aspect \<in> {''landscape'', ''portrait'', ''other''} \<and> length bytes = 32 \<and>
            s3 w' = (s3 w)(aspect @ ''/'' @ toString_hex bytes @ mediaTypeToExt rt (file_type file) \<mapsto> c) \<and>
            db w' = (db w)(video_id video \<mapsto>
              video\<lparr>videoURL := Some (public_url cfg
                 (aspect @ ''/'' @ toString_hex bytes @ mediaTypeToExt rt (file_type file)))\<rparr>) \<and>
            (r = Inr (respondWithJSON 200 (Some (video\<lparr>videoURL := Some (public_url cfg
                 (aspect @ ''/'' @ toString_hex bytes @ mediaTypeToExt rt (file_type file)))\<rparr>)))
             \<or> (\<exists>p fs x. unlink_error rt p fs = Some x \<and> r = Inl (SystemError x))))"
proof -
  obtain bytes0 w1 where rb: "randomBytes rt 16 w = (bytes0, w1)"
    by (cases "randomBytes rt 16 w")
  define t where "t = ''/tmp/video-'' @ toString_hex bytes0 @ ''.mp4''"
  obtain rw w2 where bw: "Bun_write rt t (file_content file) w1 = (rw, w2)"
    by (cases "Bun_write rt t (file_content file) w1")
  have w1: "db w1 = db w" "s3 w1 = s3 w"
    using rb randomBytes_world [of rt 16 w] by simp_all
  have w2: "db w2 = db w" "s3 w2 = s3 w"
    using bw Bun_write_world [of rt t "file_content file" w1] w1 by simp_all
  show ?thesis
  proof (cases rw)
    case (Inl e)
    then have "r = Inl e" "w' = w2"
      using assms rb bw by (simp_all add: upload_staged_def t_def)
    with w2 show ?thesis by simp
  next
    case (Inr u)
    obtain r3 w3 where ut: "upload_try rt cfg video (file_type file) t w2 = (r3, w3)"
      by (cases "upload_try rt cfg video (file_type file) t w2")
    obtain rf w4 where uf: "upload_finally rt t w3 = (rf, w4)"
      by (cases "upload_finally rt t w3")
    have res: "w' = w4" "r = (case rf of Inl e \<Rightarrow> Inl e | Inr _ \<Rightarrow> r3)"
      using assms rb bw Inr ut uf by (auto simp: upload_staged_def t_def split: sum.splits)
    have w4: "db w4 = db w3" "s3 w4 = s3 w3"
      using uf upload_finally_world [of rt t w3] by simp_all
    show ?thesis
    proof (cases r3)
      case (Inl e)
      then have "db w3 = db w2"
        using ut upload_try_failure by blast
      moreover have "\<exists>e. r = Inl e"
        using res Inl by (cases rf) simp_all
      ultimately show ?thesis
        using res w4 w2 by simp
    next
      case (Inr resp)
      from upload_try_success [OF ut [unfolded Inr]] obtain aspect bytes c where
        sh: "aspect \<in> {''landscape'', ''portrait'', ''other''}" "length bytes = 32"
          "s3 w3 = (s3 w2)(aspect @ ''/'' @ toString_hex bytes @ mediaTypeToExt rt (file_type file) \<mapsto> c)"
          "db w3 = (db w2)(video_id video \<mapsto>
              video\<lparr>videoURL := Some (public_url cfg
                 (aspect @ ''/'' @ toString_hex bytes @ mediaTypeToExt rt (file_type file)))\<rparr>)"
          "resp = respondWithJSON 200 (Some (video\<lparr>videoURL := Some (public_url cfg
                 (aspect @ ''/'' @ toString_hex bytes @ mediaTypeToExt rt (file_type file)))\<rparr>))"
        by blast
      have "r = Inr resp \<or> (\<exists>p fs x. unlink_error rt p fs = Some x \<and> r = Inl (SystemError x))"
      proof (cases rf)
        case (Inl e)
        then show ?thesis
          using res upload_finally_error [of rt t w3 e] uf by auto
      next
        case (Inr u)
        then show ?thesis
          using res \<open>r3 = Inr resp\<close> by simp
      qed
      with sh res w4 w2 show ?thesis
        by (intro disjI2 exI [of _ aspect] exI [of _ bytes] exI [of _ c]) auto
    qed
  qed
qed

lemma MAX_UPLOAD_SIZE_value: "MAX_UPLOAD_SIZE = 1073741824"
  by (simp add: MAX_UPLOAD_SIZE_def)

lemma handler_after_preamble:
  assumes "upload_preamble rt cfg req w = Inr (video, file)"
  shows "handlerUploadVideo rt cfg req w =
           (if 1073741824 < file_size file
            then (Inl (BadRequestError ''Video file exceeds the maximum allowed size of 1GB''), w)
            else if file_type file \<noteq> ''video/mp4''
            then (Inl (BadRequestError ''Invalid file type. Only MP4 videos are supported''), w)
            else upload_staged rt cfg video file w)"
  using assms by (simp add: handlerUploadVideo_def MAX_UPLOAD_SIZE_value)

lemma handler_cases:
  assumes "handlerUploadVideo rt cfg req w = (r, w')"
  shows "(w' = w \<and> (\<exists>e. r = Inl e))
       \<or> (\<exists>video file. upload_preamble rt cfg req w = Inr (video, file) \<and>
             file_type file = ''video/mp4'' \<and> upload_staged rt cfg video file w = (r, w'))"
proof (cases "upload_preamble rt cfg req w")
  case (Inl e)
  then show ?thesis
    using assms by (auto simp: handlerUploadVideo_def)
next
  case (Inr vf)
  obtain video upl where vf: "vf = (video, upl)"
    by (cases vf)
  from handler_after_preamble [OF Inr [unfolded vf]] assms Inr vf show ?thesis
    by (auto split: if_splits)
qed

lemma upload_staged_after_write:
  assumes "randomBytes rt 16 w = (bytes, w1)"
    and "t = ''/tmp/video-'' @ toString_hex bytes @ ''.mp4''"
    and "Bun_write rt t (file_content file) w1 = (Inr u, w2)"
    and "upload_try rt cfg video (file_type file) t w2 = (r3, w3)"
  shows "upload_staged rt cfg video file w =
           (case upload_finally rt t w3 of
              (Inl e, w4) \<Rightarrow> (Inl e, w4)
            | (Inr _, w4) \<Rightarrow> (r3, w4))"
    and "db w2 = db w" and "s3 w2 = s3 w"
proof -
  show "upload_staged rt cfg video file w =
           (case upload_finally rt t w3 of
              (Inl e, w4) \<Rightarrow> (Inl e, w4)
            | (Inr _, w4) \<Rightarrow> (r3, w4))"
    using assms by (simp add: upload_staged_def)
  have "db w1 = db w" "s3 w1 = s3 w"
    using assms(1) randomBytes_world [of rt 16 w] by simp_all
  then show "db w2 = db w" "s3 w2 = s3 w"
    using assms(3) Bun_write_world [of rt t "file_content file" w1] by simp_all
qed

lemma upload_staged_after_try:
  assumes "randomBytes rt 16 w = (bytes, w1)"
    and "t = ''/tmp/video-'' @ toString_hex bytes @ ''.mp4''"
    and "Bun_write rt t (file_content file) w1 = (Inr u, w2)"
    and "upload_try rt cfg video (file_type file) t w2 = (r3, w3)"
  shows "db (snd (upload_staged rt cfg video file w)) = db w3"
    and "s3 (snd (upload_staged rt cfg video file w)) = s3 w3"
    and "fst (upload_staged rt cfg video file w) = r3
         \<or> (\<exists>x. fst (upload_staged rt cfg video file w) = Inl x)"
proof -
  note eq = upload_staged_after_write(1) [OF assms]
  obtain rf w4 where uf: "upload_finally rt t w3 = (rf, w4)"
    by (cases "upload_finally rt t w3")
  have w4: "db w4 = db w3" "s3 w4 = s3 w3"
    using uf upload_finally_world [of rt t w3] by simp_all
  have snd': "snd (upload_staged rt cfg video file w) = w4"
    unfolding eq uf by (cases rf) simp_all
  show "db (snd (upload_staged rt cfg video file w)) = db w3"
    and "s3 (snd (upload_staged rt cfg video file w)) = s3 w3"
    using snd' w4 by simp_all
  show "fst (upload_staged rt cfg video file w) = r3
         \<or> (\<exists>x. fst (upload_staged rt cfg video file w) = Inl x)"
    unfolding eq uf by (cases rf) simp_all
qed

section \<open>The example runs\<close>

text \<open>
  The example runtime on the example requests: the stages above, evaluated.
\<close>

lemma example_preamble:
  assumes "getBearerToken rt = getBearerToken example_runtime"
    and "validateJWT rt = validateJWT example_runtime"
    and "db w ''v1'' = Some example_video"
  shows "upload_preamble rt example_config (example_request f) w = Inr (example_video, f)"
  using assms
  by (simp add: upload_preamble_def example_runtime_def example_config_def example_request_def
      getVideo_def example_video_def)

lemma example_probe:
  assumes "spawn rt = example_spawn"
    and "JSON_parse rt example_stdout = Some (probe_output 1920 1080)"
    and "fs p = Some c"
  shows "getVideoAspectRatio rt p fs = (Inr ''landscape'', fs)"
proof -
  let ?proc = "\<lparr>exitCode = 0, stdoutText = example_stdout, stderrText = []\<rparr>"
  have sp: "spawn rt (ffprobe_args p) fs = (?proc, fs)"
    using assms(1,3) by (simp add: example_spawn_def ffprobe_args_def)
  have js: "JSON_parse rt (stdoutText ?proc) = Some (probe_output 1920 1080)"
    using assms(2) by simp
  from getVideoAspectRatio_numbers [OF sp _ js first_stream_field_probe_output]
  show ?thesis
    using ratio_1920_1080 by simp
qed

lemma example_remux:
  assumes "spawn rt = example_spawn" and "fs p = Some c"
  shows "processVideoForFastStart rt p fs
           = (Inr (p @ ''.processed.mp4''), fs(p @ ''.processed.mp4'' \<mapsto> c))"
  using assms by (simp add: processVideoForFastStart_def example_spawn_def ffmpeg_args_def Let_def)

lemmas example_defs =
  example_runtime_def example_config_def example_video_def example_file_def example_world_def
  example_temp_def example_key_def example_url_def posix_unlink_error_def
  example_staged_world_def upload_failing_runtime_def
  update_failing_runtime_def lenient_def denying_runtime_def example_upload_def

lemmas stage_defs =
  upload_staged_def upload_try_def upload_finally_def randomBytes_def Bun_write_def
  Bun_file_delete_def s3_file_write_def updateVideo_def respondWithJSON_def Let_def

lemma example_handler:
  assumes "getBearerToken rt = getBearerToken example_runtime"
    and "validateJWT rt = validateJWT example_runtime"
    and "db w ''v1'' = Some example_video"
  shows "handlerUploadVideo rt example_config (example_request (example_file n t)) w =
           (if 1073741824 < n
            then (Inl (BadRequestError ''Video file exceeds the maximum allowed size of 1GB''), w)
            else if t \<noteq> ''video/mp4''
            then (Inl (BadRequestError ''Invalid file type. Only MP4 videos are supported''), w)
            else upload_staged rt example_config example_video (example_file n t) w)"
  using handler_after_preamble [OF example_preamble [OF assms]] by (simp add: example_file_def)

lemmas handler_defs =
  example_upload_def lenient_def upload_failing_runtime_def update_failing_runtime_def
  denying_runtime_def example_runtime_def example_world_def

lemmas run_simps =
  stage_defs example_defs example_probe example_remux
  toString_hex_def hex_of_byte_def hex_digit_def upt_rec [of _ "numeral _"]

section \<open>Storage key and address of a successful ingest\<close>

text \<open>
  C3. An ingest is successful when it reaches the state Recorded: the request passed
  the checks, the temporary file was written and the \<open>try\<close> block returned its response.
  For every such ingest, with \<open>mediaTypeToExt\<close> (of \<open>./assets\<close>, a parameter here) mapping
  \<open>video/mp4\<close> to \<open>.mp4\<close>: the object was stored under a key of the form
  \<open>^(landscape|portrait|other)/[0-9a-f]{64}\.mp4$\<close>; the address
  \<open>https://<bucket>.s3.<region>.amazonaws.com/<key>\<close> with that same key is the
  \<open>videoURL\<close> of the record in the response and of the record written to the table;
  the bucket and the table are still so when the handler has finished, whatever the
  cleanup does; and a response the handler returns is that response.
\<close>

theorem successful_ingest_key_and_address:
  assumes "upload_preamble rt cfg req w = Inr (video, file)"
    and "file_size file \<le> 2 ^ 30"
    and "file_type file = ''video/mp4''"
    and "randomBytes rt 16 w = (bytes, w1)"
    and "t = ''/tmp/video-'' @ toString_hex bytes @ ''.mp4''"
    and "Bun_write rt t (file_content file) w1 = (Inr u, w2)"
    and "upload_try rt cfg video (file_type file) t w2 = (Inr resp, w3)"
    and "mediaTypeToExt rt ''video/mp4'' = ''.mp4''"
  shows "\<exists>key c.
           storage_key_ok key \<and> s3 w3 = (s3 w)(key \<mapsto> c) \<and>
           resp = respondWithJSON 200 (Some (video\<lparr>videoURL := Some
             (''https://'' @ s3Bucket cfg @ ''.s3.'' @ s3Region cfg @ ''.amazonaws.com/'' @ key)\<rparr>)) \<and>
           db w3 = (db w)(video_id video \<mapsto> video\<lparr>videoURL := Some
             (''https://'' @ s3Bucket cfg @ ''.s3.'' @ s3Region cfg @ ''.amazonaws.com/'' @ key)\<rparr>) \<and>
           s3 (snd (handlerUploadVideo rt cfg req w)) = s3 w3 \<and>
           db (snd (handlerUploadVideo rt cfg req w)) = db w3 \<and>
           (\<forall>r. fst (handlerUploadVideo rt cfg req w) = Inr r \<longrightarrow> r = resp)"
proof -
  have h: "handlerUploadVideo rt cfg req w = upload_staged rt cfg video file w"
    using handler_after_preamble [OF assms(1)] assms(2,3) by simp
  note w2 = upload_staged_after_write(2,3) [OF assms(4-7)]
  note after = upload_staged_after_try [OF assms(4-7)]
  from upload_try_success [OF assms(7)] obtain aspect kbytes c where
    cat: "aspect \<in> {''landscape'', ''portrait'', ''other''}" and len: "length kbytes = 32"
    and s3': "s3 w3 = (s3 w2)(aspect @ ''/'' @ toString_hex kbytes @ mediaTypeToExt rt (file_type file) \<mapsto> c)"
    and db': "db w3 = (db w2)(video_id video \<mapsto>
              video\<lparr>videoURL := Some (public_url cfg
                 (aspect @ ''/'' @ toString_hex kbytes @ mediaTypeToExt rt (file_type file)))\<rparr>)"
    and r: "resp = respondWithJSON 200 (Some (video\<lparr>videoURL := Some (public_url cfg
                 (aspect @ ''/'' @ toString_hex kbytes @ mediaTypeToExt rt (file_type file)))\<rparr>))"
    by blast
  let ?key = "aspect @ ''/'' @ toString_hex kbytes @ ''.mp4''"
  have ext: "mediaTypeToExt rt (file_type file) = ''.mp4''"
    using assms(3,8) by simp
  have ok: "storage_key_ok ?key"
    using cat len by (intro storage_key_okI) (simp_all add: toString_hex_length toString_hex_ok)
  have ret: "\<forall>r. fst (handlerUploadVideo rt cfg req w) = Inr r \<longrightarrow> r = resp"
    using after(3) h by auto
  from ok s3' db' r ext w2 after(1,2) h ret show ?thesis
    unfolding public_url_def
    by (intro exI [of _ ?key] exI [of _ c]) simp
qed

theorem successful_ingest_key_and_address_witness:
  "fst (handlerUploadVideo example_runtime example_config example_upload example_world)
     = Inl (SystemError ''ENOENT'')
   \<and> storage_key_ok example_key
   \<and> s3 (snd (handlerUploadVideo example_runtime example_config example_upload example_world))
       example_key = Some ''mp4-bytes''
   \<and> db (snd (handlerUploadVideo example_runtime example_config example_upload example_world))
       ''v1'' = Some (example_video\<lparr>videoURL := Some example_url\<rparr>)
   \<and> (\<exists>key c.
         storage_key_ok key \<and>
         s3 (snd (handlerUploadVideo example_runtime example_config example_upload example_world))
           = (s3 example_world)(key \<mapsto> c) \<and>
         respondWithJSON 200 (Some (example_video\<lparr>videoURL := Some example_url\<rparr>))
           = respondWithJSON 200 (Some (example_video\<lparr>videoURL := Some
               (''https://'' @ s3Bucket example_config @ ''.s3.'' @ s3Region example_config
                  @ ''.amazonaws.com/'' @ key)\<rparr>)) \<and>
         db (snd (handlerUploadVideo example_runtime example_config example_upload example_world))
           = (db example_world)(video_id example_video \<mapsto> example_video\<lparr>videoURL := Some
               (''https://'' @ s3Bucket example_config @ ''.s3.'' @ s3Region example_config
                  @ ''.amazonaws.com/'' @ key)\<rparr>))"
proof -
  let ?rt = example_runtime
  let ?f = "example_file 5242880 ''video/mp4''"
  let ?run = "handlerUploadVideo ?rt example_config example_upload example_world"
  let ?resp = "respondWithJSON 200 (Some (example_video\<lparr>videoURL := Some example_url\<rparr>))"
  let ?rb = "randomBytes ?rt 16 example_world"
  let ?t = "''/tmp/video-'' @ toString_hex (fst ?rb) @ ''.mp4''"
  let ?bw = "Bun_write ?rt ?t (file_content ?f) (snd ?rb)"
  let ?ut = "upload_try ?rt example_config example_video (file_type ?f) ?t (snd ?bw)"
  have pre: "upload_preamble ?rt example_config example_upload example_world
      = Inr (example_video, ?f)"
    unfolding example_upload_def by (rule example_preamble) (simp_all add: example_world_def)
  have sz: "file_size ?f \<le> 2 ^ 30" and ty: "file_type ?f = ''video/mp4''"
    by (simp_all add: example_file_def)
  have rb: "?rb = (fst ?rb, snd ?rb)"
    by simp
  have bw: "?bw = (Inr (), snd ?bw)"
    by (simp add: prod_eq_iff Bun_write_def example_runtime_def)
  have ut: "?ut = (Inr ?resp, snd ?ut)"
    by (simp add: prod_eq_iff) (simp add: run_simps)
  have ext: "mediaTypeToExt ?rt ''video/mp4'' = ''.mp4''"
    by (simp add: example_runtime_def)
  have res: "fst ?run = Inl (SystemError ''ENOENT'')"
    "s3 (snd ?run) example_key = Some ''mp4-bytes''"
    "db (snd ?run) ''v1'' = Some (example_video\<lparr>videoURL := Some example_url\<rparr>)"
    by (simp_all add: example_handler handler_defs) (simp_all add: run_simps)
  have key: "storage_key_ok example_key"
    by (simp add: storage_key_ok_def example_key_def is_hex_char_def)
  from successful_ingest_key_and_address [OF pre sz ty rb refl bw ut ext]
  obtain key c where "storage_key_ok key"
    "s3 (snd ?ut) = (s3 example_world)(key \<mapsto> c)"
    "?resp = respondWithJSON 200 (Some (example_video\<lparr>videoURL := Some
       (''https://'' @ s3Bucket example_config @ ''.s3.'' @ s3Region example_config
          @ ''.amazonaws.com/'' @ key)\<rparr>))"
    "db (snd ?ut) = (db example_world)(video_id example_video \<mapsto> example_video\<lparr>videoURL := Some
       (''https://'' @ s3Bucket example_config @ ''.s3.'' @ s3Region example_config
          @ ''.amazonaws.com/'' @ key)\<rparr>)"
    "s3 (snd ?run) = s3 (snd ?ut)" "db (snd ?run) = db (snd ?ut)"
    by blast
  then have "\<exists>key c.
         storage_key_ok key \<and>
         s3 (snd ?run) = (s3 example_world)(key \<mapsto> c) \<and>
         ?resp = respondWithJSON 200 (Some (example_video\<lparr>videoURL := Some
               (''https://'' @ s3Bucket example_config @ ''.s3.'' @ s3Region example_config
                  @ ''.amazonaws.com/'' @ key)\<rparr>)) \<and>
         db (snd ?run) = (db example_world)(video_id example_video \<mapsto> example_video\<lparr>videoURL := Some
               (''https://'' @ s3Bucket example_config @ ''.s3.'' @ s3Region example_config
                  @ ''.amazonaws.com/'' @ key)\<rparr>)"
    by metis
  with res key show ?thesis
    by blast
qed

text \<open>
  The same for the runs in which the handler itself returns a response (both deletes of
  the cleanup succeeded).
\<close>

lemma handler_response_key_and_address:
  assumes "handlerUploadVideo rt cfg req w = (Inr resp, w')"
    and "mediaTypeToExt rt ''video/mp4'' = ''.mp4''"
  shows "\<exists>key c video file.
           storage_key_ok key \<and> s3 w' = (s3 w)(key \<mapsto> c) \<and>
           upload_preamble rt cfg req w = Inr (video, file) \<and>
           resp = respondWithJSON 200 (Some (video\<lparr>videoURL := Some
             (''https://'' @ s3Bucket cfg @ ''.s3.'' @ s3Region cfg @ ''.amazonaws.com/'' @ key)\<rparr>)) \<and>
           db w' = (db w)(video_id video \<mapsto> video\<lparr>videoURL := Some
             (''https://'' @ s3Bucket cfg @ ''.s3.'' @ s3Region cfg @ ''.amazonaws.com/'' @ key)\<rparr>)"
proof -
  from handler_cases [OF assms(1)] obtain video upl where
    pre: "upload_preamble rt cfg req w = Inr (video, upl)" and mt: "file_type upl = ''video/mp4''"
    and st: "upload_staged rt cfg video upl w = (Inr resp, w')"
    by auto
  from upload_staged_cases [OF st] obtain aspect bytes c where
    cat: "aspect \<in> {''landscape'', ''portrait'', ''other''}" and len: "length bytes = 32"
    and s3': "s3 w' = (s3 w)(aspect @ ''/'' @ toString_hex bytes @ mediaTypeToExt rt (file_type upl) \<mapsto> c)"
    and db': "db w' = (db w)(video_id video \<mapsto>
              video\<lparr>videoURL := Some (public_url cfg
                 (aspect @ ''/'' @ toString_hex bytes @ mediaTypeToExt rt (file_type upl)))\<rparr>)"
    and r: "Inr resp = Inr (respondWithJSON 200 (Some (video\<lparr>videoURL := Some (public_url cfg
                 (aspect @ ''/'' @ toString_hex bytes @ mediaTypeToExt rt (file_type upl)))\<rparr>)))
             \<or> (\<exists>p fs x. unlink_error rt p fs = Some x \<and> Inr resp = Inl (SystemError x))"
    by auto
  let ?key = "aspect @ ''/'' @ toString_hex bytes @ ''.mp4''"
  have ext: "mediaTypeToExt rt (file_type upl) = ''.mp4''"
    using assms(2) mt by simp
  have ok: "storage_key_ok ?key"
    using cat len by (intro storage_key_okI) (simp_all add: toString_hex_length toString_hex_ok)
  have resp: "resp = respondWithJSON 200 (Some (video\<lparr>videoURL := Some (public_url cfg ?key)\<rparr>))"
    using r ext by auto
  from ok s3' db' resp pre ext show ?thesis
    unfolding public_url_def by (intro exI [of _ ?key] exI [of _ c] exI [of _ video] exI [of _ upl]) simp
qed

section \<open>Validation of size and media type\<close>

text \<open>
  C4, as the code has it. The size is checked first, the media type second, and both
  rejections are \<open>BadRequestError\<close>s told apart by their message. For a request that
  passed steps 2 to 5: a size above \<open>2^30\<close> is rejected with the size message whatever
  the media type; a size within the ceiling with a media type other than \<open>video/mp4\<close>
  is rejected with the media type message. In both cases the state is returned as it
  was: no temporary file has been written and no random name drawn.
\<close>

theorem validation_rejects_before_staging:
  assumes "upload_preamble rt cfg req w = Inr (video, file)"
  shows "(2 ^ 30 < file_size file \<longrightarrow>
            handlerUploadVideo rt cfg req w =
              (Inl (BadRequestError ''Video file exceeds the maximum allowed size of 1GB''), w))
       \<and> (file_size file \<le> 2 ^ 30 \<and> file_type file \<noteq> ''video/mp4'' \<longrightarrow>
            handlerUploadVideo rt cfg req w =
              (Inl (BadRequestError ''Invalid file type. Only MP4 videos are supported''), w))"
  using handler_after_preamble [OF assms] by simp

theorem validation_rejects_before_staging_witness:
  "handlerUploadVideo example_runtime example_config
     (example_request (example_file 1073741825 ''video/mp4'')) example_world
     = (Inl (BadRequestError ''Video file exceeds the maximum allowed size of 1GB''), example_world)
   \<and> handlerUploadVideo example_runtime example_config
     (example_request (example_file 5242880 ''video/webm'')) example_world
     = (Inl (BadRequestError ''Invalid file type. Only MP4 videos are supported''), example_world)"
proof -
  have pre: "upload_preamble example_runtime example_config (example_request f) example_world
      = Inr (example_video, f)" for f
    by (rule example_preamble) (simp_all add: example_world_def)
  have big: "2 ^ 30 < file_size (example_file 1073741825 ''video/mp4'')"
    by (simp add: example_file_def)
  have webm: "file_size (example_file 5242880 ''video/webm'') \<le> 2 ^ 30 \<and>
      file_type (example_file 5242880 ''video/webm'') \<noteq> ''video/mp4''"
    by (simp add: example_file_def)
  from validation_rejects_before_staging [OF pre, THEN conjunct1, rule_format, OF big]
    validation_rejects_before_staging [OF pre, THEN conjunct2, rule_format, OF webm]
  show ?thesis by simp
qed

text \<open>
  The claim as stated fails: a request whose media type is \<open>video/webm\<close> and whose size
  is \<open>2^30 + 1\<close> is rejected with the size error, not with the media type error.
\<close>

theorem oversized_webm_counterexample:
  "file_type (example_file 1073741825 ''video/webm'') \<noteq> ''video/mp4''
   \<and> fst (handlerUploadVideo example_runtime example_config
            (example_request (example_file 1073741825 ''video/webm'')) example_world)
       = Inl (BadRequestError ''Video file exceeds the maximum allowed size of 1GB'')"
  by (simp add: example_handler handler_defs) (simp add: example_file_def)

text \<open>
  C10. A file of exactly \<open>2^30\<close> bytes passes the size check: the check is
  \<open>file.size > MAX_UPLOAD_SIZE\<close> with \<open>MAX_UPLOAD_SIZE = 1 << 30\<close>, which holds exactly
  for sizes above \<open>2^30\<close>; at \<open>2^30\<close> the handler goes on to the media type check and,
  for \<open>video/mp4\<close>, to staging.
\<close>

theorem upload_size_boundary_accepted:
  assumes "upload_preamble rt cfg req w = Inr (video, file)"
    and "file_size file = 2 ^ 30"
  shows "\<not> int (file_size file) > MAX_UPLOAD_SIZE
       \<and> (\<forall>n :: nat. int n > MAX_UPLOAD_SIZE \<longleftrightarrow> 2 ^ 30 < n)
       \<and> handlerUploadVideo rt cfg req w =
           (if file_type file \<noteq> ''video/mp4''
            then (Inl (BadRequestError ''Invalid file type. Only MP4 videos are supported''), w)
            else upload_staged rt cfg video file w)"
  using handler_after_preamble [OF assms(1)] assms(2) by (simp add: MAX_UPLOAD_SIZE_value)

theorem upload_size_boundary_accepted_witness:
  "fst (handlerUploadVideo example_runtime example_config
     (example_request (example_file 1073741824 ''video/webm'')) example_world)
     = Inl (BadRequestError ''Invalid file type. Only MP4 videos are supported'')
   \<and> handlerUploadVideo example_runtime example_config
     (example_request (example_file 1073741824 ''video/mp4'')) example_world
     = upload_staged example_runtime example_config example_video
         (example_file 1073741824 ''video/mp4'') example_world
   \<and> rng (snd (handlerUploadVideo example_runtime example_config
     (example_request (example_file 1073741824 ''video/mp4'')) example_world)) = 48"
proof -
  have pre: "upload_preamble example_runtime example_config (example_request f) example_world
      = Inr (example_video, f)" for f
    by (rule example_preamble) (simp_all add: example_world_def)
  have sz: "file_size (example_file 1073741824 t) = 2 ^ 30" for t
    by (simp add: example_file_def)
  note a = upload_size_boundary_accepted [OF pre sz, of "''video/webm''", THEN conjunct2, THEN conjunct2]
  note b = upload_size_boundary_accepted [OF pre sz, of "''video/mp4''", THEN conjunct2, THEN conjunct2]
  have a': "fst (handlerUploadVideo example_runtime example_config
     (example_request (example_file 1073741824 ''video/webm'')) example_world)
     = Inl (BadRequestError ''Invalid file type. Only MP4 videos are supported'')"
    unfolding a by (simp add: example_file_def)
  have b': "handlerUploadVideo example_runtime example_config
     (example_request (example_file 1073741824 ''video/mp4'')) example_world
     = upload_staged example_runtime example_config example_video
         (example_file 1073741824 ''video/mp4'') example_world"
    unfolding b by (simp add: example_file_def)
  have c: "rng (snd (upload_staged example_runtime example_config example_video
         (example_file 1073741824 ''video/mp4'') example_world)) = 48"
    by (simp add: run_simps)
  from a' b' c show ?thesis by simp
qed

section \<open>The record update\<close>

text \<open>
  C6. After any run of the handler the table is either as it was, or it differs by one
  write of the caller's record with the new address; in the latter case every stage
  has succeeded (the \<open>try\<close> block returned its response) and the object was put in the
  bucket before the record was written. An ingest that fails at any stage leaves the
  record unchanged and the handler fails, whatever the deletes of the cleanup do: a
  failed check of steps 2 to 5, a rejected size or media type, a rejected write of the
  temporary file, and any failure inside the \<open>try\<close> block (probe, rewrite, upload,
  record update).
\<close>

theorem record_written_once_after_upload:
  assumes "handlerUploadVideo rt cfg req w = (r, w')"
  shows "(db w' = db w \<or>
          (\<exists>video file bytes w1 u w2 resp w3 key c.
             upload_preamble rt cfg req w = Inr (video, file) \<and>
             randomBytes rt 16 w = (bytes, w1) \<and>
             Bun_write rt (''/tmp/video-'' @ toString_hex bytes @ ''.mp4'')
               (file_content file) w1 = (Inr u, w2) \<and>
             upload_try rt cfg video (file_type file)
               (''/tmp/video-'' @ toString_hex bytes @ ''.mp4'') w2 = (Inr resp, w3) \<and>
             s3 w3 = (s3 w)(key \<mapsto> c) \<and> s3 w' = s3 w3 \<and>
             db w' = (db w)(video_id video \<mapsto>
               video\<lparr>videoURL := Some (public_url cfg key)\<rparr>)))
       \<and> (\<forall>e. upload_preamble rt cfg req w = Inl e \<longrightarrow> r = Inl e \<and> w' = w)
       \<and> (\<forall>video file.
             upload_preamble rt cfg req w = Inr (video, file) \<and>
             (2 ^ 30 < file_size file \<or> file_type file \<noteq> ''video/mp4'') \<longrightarrow>
               (\<exists>e. r = Inl e) \<and> w' = w)
       \<and> (\<forall>video file bytes w1 e w2.
             upload_preamble rt cfg req w = Inr (video, file) \<and>
             file_size file \<le> 2 ^ 30 \<and> file_type file = ''video/mp4'' \<and>
             randomBytes rt 16 w = (bytes, w1) \<and>
             Bun_write rt (''/tmp/video-'' @ toString_hex bytes @ ''.mp4'')
               (file_content file) w1 = (Inl e, w2) \<longrightarrow>
               r = Inl e \<and> db w' = db w)
       \<and> (\<forall>video file bytes w1 u w2 e w3.
             upload_preamble rt cfg req w = Inr (video, file) \<and>
             file_size file \<le> 2 ^ 30 \<and> file_type file = ''video/mp4'' \<and>
             randomBytes rt 16 w = (bytes, w1) \<and>
             Bun_write rt (''/tmp/video-'' @ toString_hex bytes @ ''.mp4'')
               (file_content file) w1 = (Inr u, w2) \<and>
             upload_try rt cfg video (file_type file)
               (''/tmp/video-'' @ toString_hex bytes @ ''.mp4'') w2 = (Inl e, w3) \<longrightarrow>
               (\<exists>e'. r = Inl e') \<and> db w' = db w)"
proof -
  have A: "db w' = db w \<or>
          (\<exists>video file bytes w1 u w2 resp w3 key c.
             upload_preamble rt cfg req w = Inr (video, file) \<and>
             randomBytes rt 16 w = (bytes, w1) \<and>
             Bun_write rt (''/tmp/video-'' @ toString_hex bytes @ ''.mp4'')
               (file_content file) w1 = (Inr u, w2) \<and>
             upload_try rt cfg video (file_type file)
               (''/tmp/video-'' @ toString_hex bytes @ ''.mp4'') w2 = (Inr resp, w3) \<and>
             s3 w3 = (s3 w)(key \<mapsto> c) \<and> s3 w' = s3 w3 \<and>
             db w' = (db w)(video_id video \<mapsto>
               video\<lparr>videoURL := Some (public_url cfg key)\<rparr>))"
  proof -
    from handler_cases [OF assms] show ?thesis
    proof
      assume "w' = w \<and> (\<exists>e. r = Inl e)"
      then show ?thesis by simp
    next
      assume "\<exists>video file. upload_preamble rt cfg req w = Inr (video, file) \<and>
             file_type file = ''video/mp4'' \<and> upload_staged rt cfg video file w = (r, w')"
      then obtain video upl where pre: "upload_preamble rt cfg req w = Inr (video, upl)"
        and st: "upload_staged rt cfg video upl w = (r, w')"
        by blast
      obtain bytes w1 where rb: "randomBytes rt 16 w = (bytes, w1)"
        by (cases "randomBytes rt 16 w")
      define t where "t = ''/tmp/video-'' @ toString_hex bytes @ ''.mp4''"
      obtain rw w2 where bw: "Bun_write rt t (file_content upl) w1 = (rw, w2)"
        by (cases "Bun_write rt t (file_content upl) w1")
      show ?thesis
      proof (cases rw)
        case (Inl e)
        have "db w1 = db w"
          using rb randomBytes_world [of rt 16 w] by simp
        moreover have "db w2 = db w1"
          using bw Bun_write_world [of rt t "file_content upl" w1] by simp
        moreover have "w' = w2"
          using st rb bw Inl by (simp add: upload_staged_def t_def)
        ultimately show ?thesis by simp
      next
        case (Inr u)
        obtain r3 w3 where ut: "upload_try rt cfg video (file_type upl) t w2 = (r3, w3)"
          by (cases "upload_try rt cfg video (file_type upl) t w2")
        note bw' = bw [unfolded Inr]
        note w2 = upload_staged_after_write(2,3) [OF rb t_def bw' ut]
        note after = upload_staged_after_try(1,2) [OF rb t_def bw' ut]
        have fin: "db w' = db w3" "s3 w' = s3 w3"
          using after st by simp_all
        show ?thesis
        proof (cases r3)
          case (Inl e)
          then have "db w3 = db w2"
            using ut upload_try_failure by blast
          with fin w2 show ?thesis by simp
        next
          case (Inr resp)
          from upload_try_success [OF ut [unfolded Inr]] obtain key c where
            "s3 w3 = (s3 w2)(key \<mapsto> c)"
            "db w3 = (db w2)(video_id video \<mapsto> video\<lparr>videoURL := Some (public_url cfg key)\<rparr>)"
            by blast
          with fin w2 have "s3 w3 = (s3 w)(key \<mapsto> c)" "s3 w' = s3 w3"
            "db w' = (db w)(video_id video \<mapsto> video\<lparr>videoURL := Some (public_url cfg key)\<rparr>)"
            by simp_all
          with pre rb bw' ut [unfolded Inr] show ?thesis
            unfolding t_def by blast
        qed
      qed
    qed
  qed
  have B1: "\<forall>e. upload_preamble rt cfg req w = Inl e \<longrightarrow> r = Inl e \<and> w' = w"
    using assms by (auto simp: handlerUploadVideo_def)
  have B2: "\<forall>video file.
             upload_preamble rt cfg req w = Inr (video, file) \<and>
             (2 ^ 30 < file_size file \<or> file_type file \<noteq> ''video/mp4'') \<longrightarrow>
               (\<exists>e. r = Inl e) \<and> w' = w"
  proof (intro allI impI)
    fix video upl
    assume a: "upload_preamble rt cfg req w = Inr (video, upl) \<and>
             (2 ^ 30 < file_size upl \<or> file_type upl \<noteq> ''video/mp4'')"
    then show "(\<exists>e. r = Inl e) \<and> w' = w"
      using handler_after_preamble [of rt cfg req w video upl] assms by (auto split: if_splits)
  qed
  have B3: "\<forall>video file bytes w1 e w2.
             upload_preamble rt cfg req w = Inr (video, file) \<and>
             file_size file \<le> 2 ^ 30 \<and> file_type file = ''video/mp4'' \<and>
             randomBytes rt 16 w = (bytes, w1) \<and>
             Bun_write rt (''/tmp/video-'' @ toString_hex bytes @ ''.mp4'')
               (file_content file) w1 = (Inl e, w2) \<longrightarrow>
               r = Inl e \<and> db w' = db w"
  proof (intro allI impI, elim conjE)
    fix video upl bytes w1 e w2
    assume pre: "upload_preamble rt cfg req w = Inr (video, upl)"
      and sz: "file_size upl \<le> 2 ^ 30" and ty: "file_type upl = ''video/mp4''"
      and rb: "randomBytes rt 16 w = (bytes, w1)"
      and bw: "Bun_write rt (''/tmp/video-'' @ toString_hex bytes @ ''.mp4'')
               (file_content upl) w1 = (Inl e, w2)"
    have h: "handlerUploadVideo rt cfg req w = upload_staged rt cfg video upl w"
      using handler_after_preamble [OF pre] sz ty by simp
    have "upload_staged rt cfg video upl w = (Inl e, w2)"
      using rb bw by (simp add: upload_staged_def)
    with h assms have res: "r = Inl e" "w' = w2"
      by simp_all
    have "db w1 = db w"
      using rb randomBytes_world [of rt 16 w] by simp
    moreover have "db w2 = db w1"
      using Bun_write_world(1) [of rt "''/tmp/video-'' @ toString_hex bytes @ ''.mp4''"
          "file_content upl" w1]
      unfolding bw by simp
    ultimately show "r = Inl e \<and> db w' = db w"
      using res by simp
  qed
  have B4: "\<forall>video file bytes w1 u w2 e w3.
             upload_preamble rt cfg req w = Inr (video, file) \<and>
             file_size file \<le> 2 ^ 30 \<and> file_type file = ''video/mp4'' \<and>
             randomBytes rt 16 w = (bytes, w1) \<and>
             Bun_write rt (''/tmp/video-'' @ toString_hex bytes @ ''.mp4'')
               (file_content file) w1 = (Inr u, w2) \<and>
             upload_try rt cfg video (file_type file)
               (''/tmp/video-'' @ toString_hex bytes @ ''.mp4'') w2 = (Inl e, w3) \<longrightarrow>
               (\<exists>e'. r = Inl e') \<and> db w' = db w"
  proof (intro allI impI, elim conjE)
    fix video upl bytes w1 u w2 e w3
    assume pre: "upload_preamble rt cfg req w = Inr (video, upl)"
      and sz: "file_size upl \<le> 2 ^ 30" and ty: "file_type upl = ''video/mp4''"
      and rb: "randomBytes rt 16 w = (bytes, w1)"
      and bw: "Bun_write rt (''/tmp/video-'' @ toString_hex bytes @ ''.mp4'')
               (file_content upl) w1 = (Inr u, w2)"
      and ut: "upload_try rt cfg video (file_type upl)
               (''/tmp/video-'' @ toString_hex bytes @ ''.mp4'') w2 = (Inl e, w3)"
    have h: "handlerUploadVideo rt cfg req w = upload_staged rt cfg video upl w"
      using handler_after_preamble [OF pre] sz ty by simp
    note w2 = upload_staged_after_write(2) [OF rb refl bw ut]
    note after = upload_staged_after_try [OF rb refl bw ut]
    have st: "upload_staged rt cfg video upl w = (r, w')"
      using h assms by simp
    have "db w3 = db w2"
      using ut upload_try_failure by blast
    with after(1) w2 have "db w' = db w"
      unfolding st by simp
    moreover have "\<exists>e'. r = Inl e'"
      using after(3) unfolding st by auto
    ultimately show "(\<exists>e'. r = Inl e') \<and> db w' = db w"
      by simp
  qed
  from A B1 B2 B3 B4 show ?thesis
    by blast
qed

theorem record_written_once_after_upload_witness:
  "(\<exists>e'. fst (handlerUploadVideo upload_failing_runtime example_config example_upload
              example_world) = Inl e')
   \<and> db (snd (handlerUploadVideo upload_failing_runtime example_config example_upload
              example_world)) = db example_world
   \<and> fst (handlerUploadVideo example_runtime example_config
            (example_request (example_file 5242880 ''video/webm'')) example_world)
       = Inl (BadRequestError ''Invalid file type. Only MP4 videos are supported'')
   \<and> db (snd (handlerUploadVideo example_runtime example_config
            (example_request (example_file 5242880 ''video/webm'')) example_world))
       = db example_world"
proof -
  let ?rt = upload_failing_runtime
  let ?f = "example_file 5242880 ''video/mp4''"
  let ?bad = "handlerUploadVideo ?rt example_config example_upload example_world"
  let ?rb = "randomBytes ?rt 16 example_world"
  let ?t = "''/tmp/video-'' @ toString_hex (fst ?rb) @ ''.mp4''"
  let ?bw = "Bun_write ?rt ?t (file_content ?f) (snd ?rb)"
  let ?ut = "upload_try ?rt example_config example_video (file_type ?f) ?t (snd ?bw)"
  have run: "?bad = (fst ?bad, snd ?bad)"
    by simp
  have pre: "upload_preamble ?rt example_config example_upload example_world
      = Inr (example_video, ?f)"
    unfolding example_upload_def
    by (rule example_preamble)
      (simp_all add: example_world_def upload_failing_runtime_def example_runtime_def)
  have sz: "file_size ?f \<le> 2 ^ 30" and ty: "file_type ?f = ''video/mp4''"
    by (simp_all add: example_file_def)
  have rb: "?rb = (fst ?rb, snd ?rb)"
    by simp
  have bw: "?bw = (Inr (), snd ?bw)"
    by (simp add: prod_eq_iff Bun_write_def example_runtime_def upload_failing_runtime_def)
  have ut: "?ut = (Inl (SystemError ''AccessDenied''), snd ?ut)"
    by (simp add: prod_eq_iff) (simp add: run_simps)
  from pre sz ty rb bw ut
  have stage: "upload_preamble ?rt example_config example_upload example_world
        = Inr (example_video, ?f) \<and>
      file_size ?f \<le> 2 ^ 30 \<and> file_type ?f = ''video/mp4'' \<and>
      ?rb = (fst ?rb, snd ?rb) \<and> ?bw = (Inr (), snd ?bw) \<and>
      ?ut = (Inl (SystemError ''AccessDenied''), snd ?ut)"
    by blast
  note t = record_written_once_after_upload [OF run]
  from t [THEN conjunct2, THEN conjunct2, THEN conjunct2, THEN conjunct2, rule_format, OF stage]
  have a: "(\<exists>e'. fst ?bad = Inl e') \<and> db (snd ?bad) = db example_world" .
  let ?webm = "example_file 5242880 ''video/webm''"
  let ?rej = "handlerUploadVideo example_runtime example_config (example_request ?webm)
      example_world"
  have run2: "?rej = (Inl (BadRequestError ''Invalid file type. Only MP4 videos are supported''),
      snd ?rej)"
    by (simp add: prod_eq_iff) (simp add: example_handler handler_defs)
  have pre2: "upload_preamble example_runtime example_config (example_request ?webm) example_world
        = Inr (example_video, ?webm) \<and>
      (2 ^ 30 < file_size ?webm \<or> file_type ?webm \<noteq> ''video/mp4'')"
    by (rule conjI, rule example_preamble) (simp_all add: example_world_def example_file_def)
  from record_written_once_after_upload
    [OF run2, THEN conjunct2, THEN conjunct2, THEN conjunct1, rule_format, OF pre2]
  have b: "snd ?rej = example_world"
    by blast
  from a b run2 show ?thesis
    by (metis fst_conv)
qed

section \<open>Cleanup\<close>

text \<open>
  C7, as the code has it. The deletes of the \<open>finally\<close> block are awaited outside any
  \<open>catch\<close>. Once the temporary file is written and the \<open>try\<close> block has completed with
  \<open>r\<close> (a response or an error): if the delete of the temporary file rejects, the
  handler fails with that rejection and the second delete does not run; if the first
  delete succeeds and the delete of \<open><temp>.processed\<close> rejects, the handler fails with
  that rejection; only if both deletes succeed is \<open>r\<close> the handler's result.
\<close>

theorem cleanup_error_replaces_result:
  assumes "randomBytes rt 16 w = (bytes, w1)"
    and "t = ''/tmp/video-'' @ toString_hex bytes @ ''.mp4''"
    and "Bun_write rt t (file_content file) w1 = (Inr (), w2)"
    and "upload_try rt cfg video (file_type file) t w2 = (r, w3)"
  shows "(\<forall>x. unlink_error rt t (files w3) = Some x \<longrightarrow>
            upload_staged rt cfg video file w = (Inl (SystemError x), w3))
       \<and> (\<forall>x. unlink_error rt t (files w3) = None \<and>
              unlink_error rt (t @ ''.processed'') ((files w3)(t := None)) = Some x \<longrightarrow>
            fst (upload_staged rt cfg video file w) = Inl (SystemError x))
       \<and> (unlink_error rt t (files w3) = None \<and>
              unlink_error rt (t @ ''.processed'') ((files w3)(t := None)) = None \<longrightarrow>
            fst (upload_staged rt cfg video file w) = r)"
  using assms
  by (auto simp: upload_staged_def upload_finally_def Bun_file_delete_def split: option.splits)

theorem cleanup_error_replaces_result_witness:
  "fst (upload_staged example_runtime example_config example_video
          (example_file 5242880 ''video/mp4'') example_world) = Inl (SystemError ''ENOENT'')
   \<and> fst (upload_staged (lenient example_runtime) example_config example_video
          (example_file 5242880 ''video/mp4'') example_world)
       = Inr (respondWithJSON 200 (Some (example_video\<lparr>videoURL := Some example_url\<rparr>)))"
proof -
  let ?f = "example_file 5242880 ''video/mp4''"
  have strict: "fst (upload_staged example_runtime example_config example_video ?f example_world)
      = Inl (SystemError ''ENOENT'')"
  proof -
    let ?rt = example_runtime
    let ?rb = "randomBytes ?rt 16 example_world"
    let ?t = "''/tmp/video-'' @ toString_hex (fst ?rb) @ ''.mp4''"
    let ?bw = "Bun_write ?rt ?t (file_content ?f) (snd ?rb)"
    let ?ut = "upload_try ?rt example_config example_video (file_type ?f) ?t (snd ?bw)"
    have rb: "?rb = (fst ?rb, snd ?rb)"
      by simp
    have bw: "?bw = (Inr (), snd ?bw)"
      by (simp add: prod_eq_iff Bun_write_def example_runtime_def)
    have ut: "?ut = (fst ?ut, snd ?ut)"
      by simp
    have del: "unlink_error ?rt ?t (files (snd ?ut)) = None \<and>
        unlink_error ?rt (?t @ ''.processed'') ((files (snd ?ut))(?t := None)) = Some ''ENOENT''"
      by (simp add: run_simps)
    from cleanup_error_replaces_result
        [OF rb refl bw ut, THEN conjunct2, THEN conjunct1, rule_format, OF del]
    show ?thesis .
  qed
  have loose: "fst (upload_staged (lenient example_runtime) example_config example_video ?f
        example_world)
      = Inr (respondWithJSON 200 (Some (example_video\<lparr>videoURL := Some example_url\<rparr>)))"
  proof -
    let ?rt = "lenient example_runtime"
    let ?rb = "randomBytes ?rt 16 example_world"
    let ?t = "''/tmp/video-'' @ toString_hex (fst ?rb) @ ''.mp4''"
    let ?bw = "Bun_write ?rt ?t (file_content ?f) (snd ?rb)"
    let ?ut = "upload_try ?rt example_config example_video (file_type ?f) ?t (snd ?bw)"
    have rb: "?rb = (fst ?rb, snd ?rb)"
      by simp
    have bw: "?bw = (Inr (), snd ?bw)"
      by (simp add: prod_eq_iff Bun_write_def example_runtime_def lenient_def)
    have ut: "?ut = (fst ?ut, snd ?ut)"
      by simp
    have del: "unlink_error ?rt ?t (files (snd ?ut)) = None \<and>
        unlink_error ?rt (?t @ ''.processed'') ((files (snd ?ut))(?t := None)) = None"
      by (simp add: lenient_def)
    have r: "fst ?ut
        = Inr (respondWithJSON 200 (Some (example_video\<lparr>videoURL := Some example_url\<rparr>)))"
      by (simp add: run_simps)
    from cleanup_error_replaces_result
        [OF rb refl bw ut, THEN conjunct2, THEN conjunct2, rule_format, OF del] r
    show ?thesis by simp
  qed
  from strict loose show ?thesis by simp
qed

text \<open>
  The claim as stated fails: the \<open>try\<close> block completes with the response, the file
  \<open><temp>.processed\<close> does not exist, its delete rejects with \<open>ENOENT\<close>, and that
  rejection is the handler's result in place of the response. A delete refused for
  another reason (\<open>EACCES\<close> here) replaces the response in the same way.
\<close>

theorem cleanup_error_over_success_counterexample:
  "fst (upload_try example_runtime example_config example_video ''video/mp4'' example_temp
          example_staged_world)
     = Inr (respondWithJSON 200 (Some (example_video\<lparr>videoURL := Some example_url\<rparr>)))
   \<and> files (snd (upload_try example_runtime example_config example_video ''video/mp4'' example_temp
          example_staged_world)) (example_temp @ ''.processed'') = None
   \<and> fst (upload_finally example_runtime example_temp
          (snd (upload_try example_runtime example_config example_video ''video/mp4'' example_temp
             example_staged_world)))
     = Inl (SystemError ''ENOENT'')
   \<and> fst (handlerUploadVideo example_runtime example_config example_upload example_world)
     = Inl (SystemError ''ENOENT'')
   \<and> fst (upload_try denying_runtime example_config example_video ''video/mp4'' example_temp
          example_staged_world)
     = Inr (respondWithJSON 200 (Some (example_video\<lparr>videoURL := Some example_url\<rparr>)))
   \<and> fst (handlerUploadVideo denying_runtime example_config example_upload example_world)
     = Inl (SystemError ''EACCES'')"
  by (simp add: example_handler handler_defs) (simp add: run_simps)

text \<open>
  A rejection of the cleanup comes after the state Recorded: the handler then fails
  although every stage succeeded and the record carries the new address.
\<close>

lemma cleanup_rejection_after_recorded:
  "fst (handlerUploadVideo example_runtime example_config example_upload example_world)
     = Inl (SystemError ''ENOENT'')
   \<and> db example_world ''v1'' = Some example_video
   \<and> db (snd (handlerUploadVideo example_runtime example_config example_upload example_world)) ''v1''
     = Some (example_video\<lparr>videoURL := Some example_url\<rparr>)
   \<and> example_video\<lparr>videoURL := Some example_url\<rparr> \<noteq> example_video
   \<and> fst (handlerUploadVideo denying_runtime example_config example_upload example_world)
     = Inl (SystemError ''EACCES'')
   \<and> db (snd (handlerUploadVideo denying_runtime example_config example_upload example_world)) ''v1''
     = Some (example_video\<lparr>videoURL := Some example_url\<rparr>)"
  by (simp add: example_handler handler_defs) (simp add: run_simps)

text \<open>
  Whatever the runtime, the \<open>finally\<close> block leaves the file that the rewrite produced
  as it found it.
\<close>

lemma upload_finally_keeps_rewritten:
  "files (snd (upload_finally rt t w)) (t @ ''.processed.mp4'') = files w (t @ ''.processed.mp4'')"
  by (rule upload_finally_other) simp_all

text \<open>
  C2 fails on the code. The rewrite writes \<open><temp>.processed.mp4\<close>, the \<open>finally\<close> block
  deletes \<open><temp>\<close> and \<open><temp>.processed\<close>: the rewritten file is never deleted. Here
  the upload rejects after the rewrite (ingest fails in state Rewritten), or the record
  update rejects after the upload (ingest fails in state Uploaded), both deletes of the
  cleanup succeed, and the rewritten file is still there when the handler returns; it
  is also there when the unlink of the missing \<open><temp>.processed\<close> rejects.
\<close>

theorem rewritten_temp_file_left_behind:
  "fst (handlerUploadVideo (lenient upload_failing_runtime) example_config example_upload
          example_world) = Inl (SystemError ''AccessDenied'')
   \<and> files (snd (handlerUploadVideo (lenient upload_failing_runtime) example_config example_upload
          example_world)) example_temp = None
   \<and> files (snd (handlerUploadVideo (lenient upload_failing_runtime) example_config example_upload
          example_world)) (example_temp @ ''.processed.mp4'') = Some ''mp4-bytes''
   \<and> fst (handlerUploadVideo (lenient update_failing_runtime) example_config example_upload
          example_world) = Inl (SystemError ''SQLITE_BUSY'')
   \<and> files (snd (handlerUploadVideo (lenient update_failing_runtime) example_config example_upload
          example_world)) (example_temp @ ''.processed.mp4'') = Some ''mp4-bytes''
   \<and> files (snd (handlerUploadVideo upload_failing_runtime example_config example_upload
          example_world)) (example_temp @ ''.processed.mp4'') = Some ''mp4-bytes''"
  by (simp add: example_handler handler_defs) (simp add: run_simps)

end
